theory Spec2Isabelle
  imports Complex_Main "HOL-Library.Word" "HOL-Library.Monad_Syntax"
begin

section \<open>Buffers, paths and the file store\<close>

text \<open>
  The model of \<^verbatim>\<open>lib/optimize.js\<close>.  A Node \<^verbatim>\<open>Buffer\<close> is a list of bytes.  A JavaScript
  number that holds a length or an offset is a \<^typ>\<open>nat\<close>: every such value of the code is
  below \<open>2^53\<close>, where the arithmetic of doubles is exact.
\<close>

type_synonym byte = "8 word"
type_synonym buffer = "byte list"

text \<open>
  The file system is a flat store from path strings to file contents: regular files
  only, one string for one file, every file readable and every directory writable.
  \<^verbatim>\<open>fs.existsSync(p)\<close> is \<open>store p \<noteq> None\<close> and \<^verbatim>\<open>fs.statSync(p).size\<close> is the
  length of the content.
\<close>

type_synonym store = "string \<rightharpoonup> buffer"

text \<open>
  A file path is given by what Node's \<^verbatim>\<open>path.dirname\<close>, \<^verbatim>\<open>path.basename(p, ext)\<close> and
  \<^verbatim>\<open>path.extname\<close> return for it; the path itself is their concatenation (paths are
  normalised).  \<^verbatim>\<open>path.join(d, name)\<close> of a normalised directory and a relative name is
  the concatenation with a separator.
\<close>

record file_path =
  dirname :: string
  basename :: string
  extname :: string

definition path_join :: "string \<Rightarrow> string \<Rightarrow> string" where
  "path_join d name = d @ ''/'' @ name"

definition full_path :: "file_path \<Rightarrow> string" where
  "full_path p = path_join (dirname p) (basename p @ extname p)"

definition endsWith :: "string \<Rightarrow> string \<Rightarrow> bool" where
  "endsWith s t \<longleftrightarrow> length t \<le> length s \<and> drop (length s - length t) s = t"

text \<open>The bytes of an ASCII literal of the source (\<^verbatim>\<open>'glTF'\<close>, \<^verbatim>\<open>'JSON'\<close>, \<^verbatim>\<open>'BIN\0'\<close>).\<close>

definition ascii :: "string \<Rightarrow> buffer" where
  "ascii s = map (\<lambda>c. of_nat (of_char c)) s"

text \<open>
  \<^verbatim>\<open>content.toString('utf8', start, end)\<close> decodes the bytes from \<open>start\<close> up to \<open>end\<close>,
  with \<open>end\<close> clamped to the length of the buffer.  The code compares the decoded string
  with ASCII literals only, and a UTF-8 decoding equals an ASCII literal exactly when the
  bytes are those of the literal, so the comparison is made on the bytes.
\<close>

definition buffer_slice :: "buffer \<Rightarrow> nat \<Rightarrow> nat \<Rightarrow> buffer" where
  "buffer_slice content start end' = take (end' - start) (drop start content)"

text \<open>\<^verbatim>\<open>content.readUInt32LE(offset)\<close>; \<open>None\<close> is the \<^verbatim>\<open>RangeError\<close> of a read past the end.\<close>

definition readUInt32LE :: "buffer \<Rightarrow> nat \<Rightarrow> nat option" where
  "readUInt32LE content offset =
     (if offset + 4 \<le> length content
      then Some (unat (content ! offset)
               + 256 * unat (content ! (offset + 1))
               + 65536 * unat (content ! (offset + 2))
               + 16777216 * unat (content ! (offset + 3)))
      else None)"

section \<open>JavaScript values read from JSON\<close>

text \<open>
  What \<^verbatim>\<open>JSON.parse\<close> returns.  An object is the list of its own members, each key once.
  Of a number the code only ever inspects whether it is zero and whether it is positive
  (a literal beyond the range of doubles parses to an infinity, which stands here for any
  number of its sign).
\<close>

datatype json =
    JNull
  | JBool bool
  | JNum real
  | JStr string
  | JArr "json list"
  | JObj "(string \<times> json) list"

datatype js = Undefined | Val json

text \<open>
  The built-ins of the JavaScript runtime that the code calls and this model does not
  define: \<^verbatim>\<open>JSON.parse\<close> applied to the UTF-8 decoding of a byte sequence (\<open>None\<close> is the
  \<^verbatim>\<open>SyntaxError\<close>), and the comparison \<^verbatim>\<open>v > 0\<close> for a string, an array or an object
  \<open>v\<close>, which goes through the coercions \<^verbatim>\<open>ToPrimitive\<close> and \<^verbatim>\<open>StringToNumber\<close>.
\<close>

record runtime =
  JSON_parse :: "buffer \<Rightarrow> json option"
  coerced_gt0 :: "json \<Rightarrow> bool"

text \<open>
  Property access \<^verbatim>\<open>v.k\<close> and \<^verbatim>\<open>v[0]\<close> for the keys the code reads (\<^verbatim>\<open>asset\<close>,
  \<^verbatim>\<open>version\<close>, \<^verbatim>\<open>buffers\<close>, \<^verbatim>\<open>length\<close>, \<^verbatim>\<open>uri\<close> and the index \<^verbatim>\<open>0\<close>); \<open>None\<close> is the
  \<^verbatim>\<open>TypeError\<close> of reading a property of \<^verbatim>\<open>null\<close> or \<^verbatim>\<open>undefined\<close>.
\<close>

fun member :: "js \<Rightarrow> string \<Rightarrow> js option" where
  "member Undefined k = None"
| "member (Val JNull) k = None"
| "member (Val (JBool b)) k = Some Undefined"
| "member (Val (JNum r)) k = Some Undefined"
| "member (Val (JStr s)) k =
     Some (if k = ''length'' then Val (JNum (real (length s)))
           else if k = ''0'' \<and> s \<noteq> [] then Val (JStr [hd s])
           else Undefined)"
| "member (Val (JArr xs)) k =
     Some (if k = ''length'' then Val (JNum (real (length xs)))
           else if k = ''0'' \<and> xs \<noteq> [] then Val (hd xs)
           else Undefined)"
| "member (Val (JObj kvs)) k =
     Some (case map_of kvs k of None \<Rightarrow> Undefined | Some v \<Rightarrow> Val v)"

text \<open>\<^verbatim>\<open>ToBoolean\<close>: what \<^verbatim>\<open>!v\<close> and \<^verbatim>\<open>if (v)\<close> test.\<close>

fun truthy :: "js \<Rightarrow> bool" where
  "truthy Undefined = False"
| "truthy (Val JNull) = False"
| "truthy (Val (JBool b)) = b"
| "truthy (Val (JNum r)) = (r \<noteq> 0)"
| "truthy (Val (JStr s)) = (s \<noteq> [])"
| "truthy (Val (JArr xs)) = True"
| "truthy (Val (JObj kvs)) = True"

text \<open>The comparison \<^verbatim>\<open>v > 0\<close>.\<close>

fun gt0 :: "runtime \<Rightarrow> js \<Rightarrow> bool" where
  "gt0 rt Undefined = False"
| "gt0 rt (Val JNull) = False"
| "gt0 rt (Val (JBool b)) = b"
| "gt0 rt (Val (JNum r)) = (0 < r)"
| "gt0 rt (Val v) = coerced_gt0 rt v"

section \<open>The validator\<close>

text \<open>The error texts of \<^verbatim>\<open>validateGltfModel\<close>, one constructor for each.\<close>

datatype reason =
    Fichier_introuvable
  | Fichier_vide
  | Structure_GLTF_invalide
  | Version_GLTF_non_supportee js
  | Fichier_binaire_manquant string
  | JSON_invalide
  | Fichier_GLB_trop_petit
  | Magic_number_GLB_invalide
  | Version_GLB_non_supportee nat
  | Longueur_GLB_incorrecte nat nat
  | Chunk_GLB_incomplet
  | Chunk_JSON_GLB_invalide
  | Version_GLTF_dans_GLB_non_supportee js
  | JSON_GLB_invalide
  | GLB_sans_chunk_JSON
  | Erreur_de_lecture_GLB

datatype validation = Valid | Invalid reason

text \<open>
  The body of the \<^verbatim>\<open>try\<close> of the \<^verbatim>\<open>.gltf\<close> branch (lines 110-136), after the file is
  read: the outer \<open>option\<close> is \<open>None\<close> when the body throws, the inner one is the reason of
  a \<^verbatim>\<open>return\<close>, or \<open>None\<close> when the body runs to its end.  \<^verbatim>\<open>path.join\<close> throws a
  \<^verbatim>\<open>TypeError\<close> on a URI that is not a string.
\<close>

definition gltf_try :: "runtime \<Rightarrow> store \<Rightarrow> file_path \<Rightarrow> buffer \<Rightarrow> reason option option" where
  "gltf_try rt st filePath content =
     do {
       gltf \<leftarrow> JSON_parse rt content;
       asset \<leftarrow> member (Val gltf) ''asset'';
       if \<not> truthy asset then Some (Some Structure_GLTF_invalide)
       else do {
         version \<leftarrow> member asset ''version'';
         if \<not> truthy version then Some (Some Structure_GLTF_invalide)
         else if version \<noteq> Val (JStr ''2.0'') then Some (Some (Version_GLTF_non_supportee version))
         else do {
           buffers \<leftarrow> member (Val gltf) ''buffers'';
           if \<not> truthy buffers then Some None
           else do {
             len \<leftarrow> member buffers ''length'';
             if \<not> gt0 rt len then Some None
             else do {
               buffer \<leftarrow> member buffers ''0'';
               uri \<leftarrow> member buffer ''uri'';
               if \<not> truthy uri then Some None
               else (case uri of
                   Val (JStr u) \<Rightarrow>
                     if st (path_join (dirname filePath) u) = None
                     then Some (Some (Fichier_binaire_manquant u))
                     else Some None
                 | _ \<Rightarrow> None)
             }
           }
         }
       }
     }"

text \<open>The \<^verbatim>\<open>.gltf\<close> branch with its \<^verbatim>\<open>catch\<close> (lines 108-141).\<close>

definition validate_gltf :: "runtime \<Rightarrow> store \<Rightarrow> file_path \<Rightarrow> buffer \<Rightarrow> reason option" where
  "validate_gltf rt st filePath content =
     (case gltf_try rt st filePath content of
        None \<Rightarrow> Some JSON_invalide
      | Some r \<Rightarrow> r)"

text \<open>The \<^verbatim>\<open>try\<close> and \<^verbatim>\<open>catch\<close> around the JSON chunk of a \<^verbatim>\<open>.glb\<close> file (lines 187-202).\<close>

definition glb_json_try :: "runtime \<Rightarrow> buffer \<Rightarrow> reason option option" where
  "glb_json_try rt jsonContent =
     do {
       gltf \<leftarrow> JSON_parse rt jsonContent;
       asset \<leftarrow> member (Val gltf) ''asset'';
       if \<not> truthy asset then Some (Some Chunk_JSON_GLB_invalide)
       else do {
         version \<leftarrow> member asset ''version'';
         if \<not> truthy version then Some (Some Chunk_JSON_GLB_invalide)
         else if version \<noteq> Val (JStr ''2.0'')
           then Some (Some (Version_GLTF_dans_GLB_non_supportee version))
         else Some None
       }
     }"

definition glb_json_chunk :: "runtime \<Rightarrow> buffer \<Rightarrow> reason option" where
  "glb_json_chunk rt jsonContent =
     (case glb_json_try rt jsonContent of
        None \<Rightarrow> Some JSON_GLB_invalide
      | Some r \<Rightarrow> r)"

text \<open>
  One turn of the chunk loop (lines 177-208) at the cursor \<open>offset\<close>: \<open>Inl r\<close> is a
  \<^verbatim>\<open>return\<close> of the reason \<open>r\<close>, \<open>Inr\<close> carries the cursor and the two flags to the next
  turn.
\<close>

definition chunk_step :: "runtime \<Rightarrow> buffer \<Rightarrow> nat \<Rightarrow> bool \<Rightarrow> bool \<Rightarrow> reason + nat \<times> bool \<times> bool" where
  "chunk_step rt content offset hasJSONChunk hasBINChunk =
     (if offset + 8 > length content then Inl Chunk_GLB_incomplet
      else (case readUInt32LE content offset of
          None \<Rightarrow> Inl Erreur_de_lecture_GLB
        | Some chunkLength \<Rightarrow>
            if buffer_slice content (offset + 4) (offset + 8) = ascii ''JSON'' then
              (case glb_json_chunk rt
                      (buffer_slice content (offset + 8) (offset + 8 + chunkLength)) of
                 Some r \<Rightarrow> Inl r
               | None \<Rightarrow> Inr (offset + 8 + chunkLength, True, hasBINChunk))
            else if buffer_slice content (offset + 4) (offset + 8) = ascii (''BIN'' @ [CHR 0x00])
              then Inr (offset + 8 + chunkLength, hasJSONChunk, True)
            else Inr (offset + 8 + chunkLength, hasJSONChunk, hasBINChunk)))"

text \<open>
  The chunk loop and the test after it (lines 176-214): \<open>Some r\<close> is a \<^verbatim>\<open>return\<close> of the
  reason \<open>r\<close>, \<open>None\<close> is falling out of the \<^verbatim>\<open>.glb\<close> branch.
\<close>

function chunk_scan :: "runtime \<Rightarrow> buffer \<Rightarrow> nat \<Rightarrow> bool \<Rightarrow> bool \<Rightarrow> reason option" where
  "chunk_scan rt content offset hasJSONChunk hasBINChunk =
     (if offset < length content then
        (case chunk_step rt content offset hasJSONChunk hasBINChunk of
           Inl r \<Rightarrow> Some r
         | Inr (offset', hasJSONChunk', hasBINChunk') \<Rightarrow>
             chunk_scan rt content offset' hasJSONChunk' hasBINChunk')
      else if \<not> hasJSONChunk then Some GLB_sans_chunk_JSON
      else None)"
  by pat_completeness auto
termination
proof (relation "measure (\<lambda>(rt, content, offset, hj, hb). length content - offset)")
  show "wf (measure (\<lambda>(rt, content, offset, hj, hb). length content - offset))"
    by simp
next
  fix rt :: runtime and content :: buffer and offset hj hb x2 x y xa ya
  assume "offset < length content"
    and "chunk_step rt content offset hj hb = Inr x2"
    and "(x, y) = x2" and "(xa, ya) = y"
  then have "offset + 8 \<le> x"
    by (auto simp: chunk_step_def split: if_splits option.splits)
  with \<open>offset < length content\<close>
  show "((rt, content, x, xa, ya), rt, content, offset, hj, hb)
          \<in> measure (\<lambda>(rt, content, offset, hj, hb). length content - offset)"
    by simp
qed

text \<open>
  The same loop with a budget of turns: \<open>None\<close> when the budget runs out before the loop
  is left.
\<close>

fun chunk_scan_fuel :: "nat \<Rightarrow> runtime \<Rightarrow> buffer \<Rightarrow> nat \<Rightarrow> bool \<Rightarrow> bool \<Rightarrow> reason option option" where
  "chunk_scan_fuel 0 rt content offset hasJSONChunk hasBINChunk = None"
| "chunk_scan_fuel (Suc n) rt content offset hasJSONChunk hasBINChunk =
     (if offset < length content then
        (case chunk_step rt content offset hasJSONChunk hasBINChunk of
           Inl r \<Rightarrow> Some (Some r)
         | Inr (offset', hasJSONChunk', hasBINChunk') \<Rightarrow>
             chunk_scan_fuel n rt content offset' hasJSONChunk' hasBINChunk')
      else if \<not> hasJSONChunk then Some (Some GLB_sans_chunk_JSON)
      else Some None)"

text \<open>The \<^verbatim>\<open>.glb\<close> branch (lines 144-221).\<close>

definition validate_glb :: "runtime \<Rightarrow> buffer \<Rightarrow> reason option" where
  "validate_glb rt content =
     (if length content < 12 then Some Fichier_GLB_trop_petit
      else if buffer_slice content 0 4 \<noteq> ascii ''glTF'' then Some Magic_number_GLB_invalide
      else (case readUInt32LE content 4 of
          None \<Rightarrow> Some Erreur_de_lecture_GLB
        | Some version \<Rightarrow>
            if version \<noteq> 2 then Some (Version_GLB_non_supportee version)
            else (case readUInt32LE content 8 of
                None \<Rightarrow> Some Erreur_de_lecture_GLB
              | Some len \<Rightarrow>
                  if len \<noteq> length content
                  then Some (Longueur_GLB_incorrecte len (length content))
                  else chunk_scan rt content 12 False False)))"

text \<open>
  \<^verbatim>\<open>validateGltfModel(filePath)\<close> (lines 92-228).  The two \<^verbatim>\<open>if\<close> statements on the
  extension follow each other as in the source.  The \<^verbatim>\<open>catch\<close> of lines 225-227 has no
  branch here: on the flat store no call outside the inner \<^verbatim>\<open>try\<close> blocks throws.
\<close>

definition validateGltfModel :: "runtime \<Rightarrow> store \<Rightarrow> file_path \<Rightarrow> validation" where
  "validateGltfModel rt st filePath =
     (case st (full_path filePath) of
        None \<Rightarrow> Invalid Fichier_introuvable
      | Some content \<Rightarrow>
          if length content = 0 then Invalid Fichier_vide
          else (case (if endsWith (full_path filePath) ''.gltf''
                      then validate_gltf rt st filePath content else None) of
              Some r \<Rightarrow> Invalid r
            | None \<Rightarrow>
                (case (if endsWith (full_path filePath) ''.glb''
                       then validate_glb rt content else None) of
                   Some r \<Rightarrow> Invalid r
                 | None \<Rightarrow> Valid)))"

section \<open>The optimisation pipeline\<close>

subsection \<open>Options\<close>

text \<open>The module constants (lines 2-4).\<close>

definition COMPRESS_DRACO :: bool where
  "COMPRESS_DRACO = True"

definition RESIZE_TEXTURES :: bool where
  "RESIZE_TEXTURES = True"

definition MAX_TEXTURE_SIZE :: nat where
  "MAX_TEXTURE_SIZE = 1024"

text \<open>
  The \<^verbatim>\<open>options\<close> argument of \<^verbatim>\<open>optimizeModel\<close>: a field is \<open>None\<close> when the caller's
  object does not have it (it reads \<^verbatim>\<open>undefined\<close>); the flags are booleans and the
  size is a natural number.
\<close>

record options =
  compressDraco :: "bool option"
  resizeTextures :: "bool option"
  maxTextureSize :: "nat option"
  backupOriginal :: "bool option"

text \<open>The four local constants that the destructuring of lines 324-329 binds.\<close>

record settings =
  compress :: bool
  resize :: bool
  maxSize :: nat
  backup :: bool

definition destructure :: "options \<Rightarrow> settings" where
  "destructure opts =
     \<lparr> compress = (case compressDraco opts of None \<Rightarrow> COMPRESS_DRACO | Some v \<Rightarrow> v),
       resize = (case resizeTextures opts of None \<Rightarrow> RESIZE_TEXTURES | Some v \<Rightarrow> v),
       maxSize = (case maxTextureSize opts of None \<Rightarrow> MAX_TEXTURE_SIZE | Some v \<Rightarrow> v),
       backup = (case backupOriginal opts of None \<Rightarrow> True | Some v \<Rightarrow> v) \<rparr>"

subsection \<open>The derived paths\<close>

text \<open>
  \<^verbatim>\<open>str.replace(pattern, replacement)\<close> with a string pattern replaces the first
  occurrence of the pattern.  \<open>find_first\<close> splits the string around that occurrence;
  \<open>substitution\<close> is \<^verbatim>\<open>GetSubstitution\<close> for a match without captures, which expands
  \<^verbatim>\<open>$$\<close>, \<^verbatim>\<open>$&\<close>, the dollar with a backquote and the dollar with a quote in the replacement.
\<close>

fun find_first :: "string \<Rightarrow> string \<Rightarrow> (string \<times> string) option" where
  "find_first pat [] = (if pat = [] then Some ([], []) else None)"
| "find_first pat (c # s) =
     (if take (length pat) (c # s) = pat then Some ([], drop (length pat) (c # s))
      else map_option (\<lambda>(before, after). (c # before, after)) (find_first pat s))"

fun substitution :: "string \<Rightarrow> string \<Rightarrow> string \<Rightarrow> string \<Rightarrow> string" where
  "substitution matched before after (c # d # r) =
     (if c = CHR ''$'' \<and> d = CHR ''$'' then CHR ''$'' # substitution matched before after r
      else if c = CHR ''$'' \<and> d = CHR ''&'' then matched @ substitution matched before after r
      else if c = CHR ''$'' \<and> d = CHR 0x60 then before @ substitution matched before after r
      else if c = CHR ''$'' \<and> d = CHR 0x27 then after @ substitution matched before after r
      else c # substitution matched before after (d # r))"
| "substitution matched before after r = r"

definition String_replace :: "string \<Rightarrow> string \<Rightarrow> string \<Rightarrow> string" where
  "String_replace str pat replacement =
     (case find_first pat str of
        None \<Rightarrow> str
      | Some (before, after) \<Rightarrow> before @ substitution pat before after replacement @ after)"

text \<open>The paths of lines 331-335, 365, 379, 418 and 420.\<close>

definition inputPath :: "file_path \<Rightarrow> string" where
  "inputPath p = full_path p"

definition outputPath :: "file_path \<Rightarrow> string" where
  "outputPath p = path_join (dirname p) (basename p @ ''-optimized'' @ extname p)"

definition backupPath :: "file_path \<Rightarrow> string" where
  "backupPath p = path_join (dirname p) (basename p @ ''-original'' @ extname p)"

definition tempPath :: "file_path \<Rightarrow> string" where
  "tempPath p = String_replace (outputPath p) (extname p) (''-temp'' @ extname p)"

definition tempPath2 :: "file_path \<Rightarrow> string" where
  "tempPath2 p = String_replace (outputPath p) (extname p) (''-temp2'' @ extname p)"

definition binPath :: "file_path \<Rightarrow> string" where
  "binPath p = path_join (dirname p) ''scene.bin''"

definition binBackupPath :: "file_path \<Rightarrow> string" where
  "binBackupPath p = path_join (dirname p) ''scene-original.bin''"

subsection \<open>The transform tool and the effects\<close>

text \<open>
  The three command lines that the code hands to \<^verbatim>\<open>execSync\<close>, by their arguments: the
  input path, the output path, and the \<^verbatim>\<open>--compress draco\<close> flag or the value of
  \<^verbatim>\<open>--width\<close> and \<^verbatim>\<open>--height\<close>.
\<close>

datatype command =
    Optimize string string bool
  | Resize string string nat
  | Webp string string

fun output_of :: "command \<Rightarrow> string" where
  "output_of (Optimize i out' c) = out'"
| "output_of (Resize i out' n) = out'"
| "output_of (Webp i out' ) = out'"

text \<open>
  The external tool \<^verbatim>\<open>gltf-transform\<close> is not part of the code.  It is a parameter: a
  function that, for a command and the store it runs on, either writes its output file
  and exits with success, or fails, leaving nothing or a partial file at its output
  path.  It writes to no other path.
\<close>

datatype transform_result = Written buffer | Failed "buffer option"

type_synonym port = "command \<Rightarrow> store \<Rightarrow> transform_result"

text \<open>
  What the code prints with \<^verbatim>\<open>log\<close> and the commands it runs, in order.  The lines
  that only rule off, name the file or the format, or print sizes are left out.
\<close>

datatype event =
    Exec command
  | Modele_invalide reason
  | Modele_valide
  | Etape nat
  | Redimensionnement_a_echoue
  | Compression_WebP_a_echoue
  | Optimisation_terminee
  | Applique_Draco
  | Applique_redimensionnement nat
  | Applique_WebP
  | Applique_gltf_transform
  | Sauvegarde_de_l_original
  | Remplacement_du_fichier
  | Fichier_remplace
  | Erreur_lors_de_l_optimisation

text \<open>
  A statement acts on the store and the console; the flag it returns is \<open>False\<close> when it
  throws.  \<^verbatim>\<open>unlinkSync\<close>, \<^verbatim>\<open>renameSync\<close> and \<^verbatim>\<open>copyFileSync\<close> throw when their
  source file does not exist.
\<close>

type_synonym world = "store \<times> event list"
type_synonym action = "world \<Rightarrow> bool \<times> world"

definition no_op :: action where
  "no_op w = (True, w)"

definition and_then :: "action \<Rightarrow> action \<Rightarrow> action" where
  "and_then a b w = (case a w of (ok, w') \<Rightarrow> if ok then b w' else (False, w'))"

definition block :: "action list \<Rightarrow> action" where
  "block as = foldr and_then as no_op"

definition try_catch :: "action \<Rightarrow> action \<Rightarrow> action" where
  "try_catch body handler w = (case body w of (ok, w') \<Rightarrow> if ok then (True, w') else handler w')"

definition whenever :: "(store \<Rightarrow> bool) \<Rightarrow> action \<Rightarrow> action" where
  "whenever c a w = (if c (fst w) then a w else (True, w))"

definition console_log :: "event \<Rightarrow> action" where
  "console_log e w = (True, (fst w, snd w @ [e]))"

definition existsSync :: "string \<Rightarrow> store \<Rightarrow> bool" where
  "existsSync f st \<longleftrightarrow> st f \<noteq> None"

definition unlinkSync :: "string \<Rightarrow> action" where
  "unlinkSync f w =
     (case fst w f of
        None \<Rightarrow> (False, w)
      | Some c \<Rightarrow> (True, ((fst w)(f := None), snd w)))"

definition renameSync :: "string \<Rightarrow> string \<Rightarrow> action" where
  "renameSync old new w =
     (case fst w old of
        None \<Rightarrow> (False, w)
      | Some c \<Rightarrow> (True, (((fst w)(old := None))(new \<mapsto> c), snd w)))"

definition copyFileSync :: "string \<Rightarrow> string \<Rightarrow> action" where
  "copyFileSync src dest w =
     (case fst w src of
        None \<Rightarrow> (False, w)
      | Some c \<Rightarrow> (True, ((fst w)(dest \<mapsto> c), snd w)))"

definition execSync :: "port \<Rightarrow> command \<Rightarrow> action" where
  "execSync tool cmd w =
     (case tool cmd (fst w) of
        Written b \<Rightarrow> (True, ((fst w)(output_of cmd \<mapsto> b), snd w @ [Exec cmd]))
      | Failed None \<Rightarrow> (False, (fst w, snd w @ [Exec cmd]))
      | Failed (Some b) \<Rightarrow> (False, ((fst w)(output_of cmd \<mapsto> b), snd w @ [Exec cmd])))"

subsection \<open>\<^verbatim>\<open>optimizeModel\<close>\<close>

text \<open>Step 2 (lines 363-376); \<^verbatim>\<open>currentPath\<close> is \<^verbatim>\<open>outputPath\<close> throughout.\<close>

definition resize_stage :: "port \<Rightarrow> settings \<Rightarrow> file_path \<Rightarrow> action" where
  "resize_stage tool cfg p =
     whenever (\<lambda>st. resize cfg)
       (block
         [console_log (Etape 2),
          try_catch
            (block
              [execSync tool (Resize (outputPath p) (tempPath p) (maxSize cfg)),
               unlinkSync (outputPath p),
               renameSync (tempPath p) (outputPath p)])
            (block
              [console_log Redimensionnement_a_echoue,
               whenever (existsSync (tempPath p)) (unlinkSync (tempPath p))])])"

text \<open>Step 3 (lines 378-389).\<close>

definition webp_stage :: "port \<Rightarrow> file_path \<Rightarrow> action" where
  "webp_stage tool p =
     block
       [console_log (Etape 3),
        try_catch
          (block
            [execSync tool (Webp (outputPath p) (tempPath2 p)),
             unlinkSync (outputPath p),
             renameSync (tempPath2 p) (outputPath p)])
          (block
            [console_log Compression_WebP_a_echoue,
             whenever (existsSync (tempPath2 p)) (unlinkSync (tempPath2 p))])]"

text \<open>The report of lines 394-406.\<close>

definition report :: "settings \<Rightarrow> action" where
  "report cfg =
     block
       [console_log Optimisation_terminee,
        whenever (\<lambda>st. compress cfg) (console_log Applique_Draco),
        whenever (\<lambda>st. resize cfg) (console_log (Applique_redimensionnement (maxSize cfg))),
        console_log Applique_WebP,
        console_log Applique_gltf_transform]"

text \<open>The backup and the replacement of the original (lines 408-427).\<close>

definition replace_original :: "settings \<Rightarrow> file_path \<Rightarrow> action" where
  "replace_original cfg p =
     block
       [whenever (\<lambda>st. backup cfg \<and> \<not> existsSync (backupPath p) st)
          (block [console_log Sauvegarde_de_l_original, copyFileSync (inputPath p) (backupPath p)]),
        console_log Remplacement_du_fichier,
        unlinkSync (inputPath p),
        renameSync (outputPath p) (inputPath p),
        whenever (\<lambda>st. extname p = ''.gltf'')
          (whenever (existsSync (binPath p))
            (whenever (\<lambda>st. backup cfg \<and> \<not> existsSync (binBackupPath p) st)
              (copyFileSync (binPath p) (binBackupPath p)))),
        console_log Fichier_remplace]"

text \<open>The outer \<^verbatim>\<open>try\<close> and its \<^verbatim>\<open>catch\<close> (lines 353-434).\<close>

definition optimize_try :: "port \<Rightarrow> settings \<Rightarrow> file_path \<Rightarrow> action" where
  "optimize_try tool cfg p =
     try_catch
       (block
         [console_log (Etape 1),
          execSync tool (Optimize (inputPath p) (outputPath p) (compress cfg)),
          resize_stage tool cfg p,
          webp_stage tool p,
          report cfg,
          replace_original cfg p])
       (block
         [console_log Erreur_lors_de_l_optimisation,
          whenever (existsSync (outputPath p)) (unlinkSync (outputPath p))])"

text \<open>
  \<^verbatim>\<open>optimizeModel(inputPath, options)\<close> (lines 319-435), run on a store with an empty
  console.  The flag of the result tells that the call returns rather than throws.
  \<^verbatim>\<open>getGltfModelSize\<close> (lines 350 and 391) only reads sizes for the lines that print
  them, behind \<^verbatim>\<open>existsSync\<close>, and has no part here.
\<close>

definition optimizeModel :: "runtime \<Rightarrow> port \<Rightarrow> options \<Rightarrow> file_path \<Rightarrow> store \<Rightarrow> bool \<times> world" where
  "optimizeModel rt tool opts p st =
     (case validateGltfModel rt st p of
        Invalid r \<Rightarrow> console_log (Modele_invalide r) (st, [])
      | Valid \<Rightarrow> block [console_log Modele_valide, optimize_try tool (destructure opts) p] (st, []))"

subsection \<open>Reading the result of a run\<close>

text \<open>
  \<^verbatim>\<open>optimizeModel\<close> returns no value.  What a run did is read from the store it leaves
  and from the console: the run has replaced the original exactly when it has printed
  the last line of the \<^verbatim>\<open>try\<close> block (line 427), the event \<open>Fichier_remplace\<close>.
\<close>

definition store_after :: "bool \<times> world \<Rightarrow> store" where
  "store_after r = fst (snd r)"

definition console_after :: "bool \<times> world \<Rightarrow> event list" where
  "console_after r = snd (snd r)"

definition committed :: "bool \<times> world \<Rightarrow> bool" where
  "committed r \<longleftrightarrow> Fichier_remplace \<in> set (console_after r)"

text \<open>
  \<^verbatim>\<open>path.extname\<close> returns the empty string or a string that starts with a dot.
\<close>

definition well_formed :: "file_path \<Rightarrow> bool" where
  "well_formed p \<longleftrightarrow> extname p = [] \<or> hd (extname p) = CHR ''.''"

section \<open>Sample inputs\<close>

text \<open>
  Two JSON texts and the values \<^verbatim>\<open>JSON.parse\<close> returns for them.  The sample runtime
  parses these two texts and rejects every other input; the examples hand it no other
  text than these and the empty one.
\<close>

definition sample_json_text :: string where
  \<open>sample_json_text = ''{"asset":{"version":"2.0"}}''\<close>

definition sample_json :: json where
  "sample_json = JObj [(''asset'', JObj [(''version'', JStr ''2.0'')])]"

definition sample_gltf_text :: string where
  \<open>sample_gltf_text =
     ''{"asset":{"version":"2.0"},"buffers":[{"uri":"scene.bin"},{"uri":"missing.bin"}]}''\<close>

definition sample_gltf :: json where
  "sample_gltf =
     JObj [(''asset'', JObj [(''version'', JStr ''2.0'')]),
           (''buffers'', JArr [JObj [(''uri'', JStr ''scene.bin'')],
                               JObj [(''uri'', JStr ''missing.bin'')]])]"

definition sample_runtime :: runtime where
  "sample_runtime =
     \<lparr> JSON_parse = map_of [(ascii sample_json_text, sample_json),
                             (ascii sample_gltf_text, sample_gltf)],
       coerced_gt0 = (\<lambda>v. False) \<rparr>"

text \<open>The four bytes that \<^verbatim>\<open>writeUInt32LE\<close> would write.\<close>

definition uint32LE :: "nat \<Rightarrow> buffer" where
  "uint32LE n = [of_nat n, of_nat (n div 256), of_nat (n div 65536), of_nat (n div 16777216)]"

text \<open>
  Binary containers: one with a JSON chunk only, one with a JSON chunk and a complete
  \<^verbatim>\<open>BIN\<close> chunk, one whose \<^verbatim>\<open>BIN\<close> chunk declares 16 bytes and has none, and one
  that ends three bytes into a chunk header.
\<close>

definition sample_glb :: buffer where
  "sample_glb =
     ascii ''glTF'' @ uint32LE 2 @ uint32LE 47
     @ uint32LE 27 @ ascii ''JSON'' @ ascii sample_json_text"

definition sample_glb_bin :: buffer where
  "sample_glb_bin =
     ascii ''glTF'' @ uint32LE 2 @ uint32LE 59
     @ uint32LE 27 @ ascii ''JSON'' @ ascii sample_json_text
     @ uint32LE 4 @ ascii (''BIN'' @ [CHR 0x00]) @ [1, 2, 3, 4]"

definition truncated_glb :: buffer where
  "truncated_glb =
     ascii ''glTF'' @ uint32LE 2 @ uint32LE 55
     @ uint32LE 27 @ ascii ''JSON'' @ ascii sample_json_text
     @ uint32LE 16 @ ascii (''BIN'' @ [CHR 0x00])"

definition truncated_header_glb :: buffer where
  "truncated_header_glb = ascii ''glTF'' @ uint32LE 2 @ uint32LE 15 @ [0, 0, 0]"

definition junk :: buffer where
  "junk = [0xde, 0xad]"

definition sample_glb_path :: file_path where
  "sample_glb_path = \<lparr> dirname = ''/models'', basename = ''robot'', extname = ''.glb'' \<rparr>"

definition sample_gltf_path :: file_path where
  "sample_gltf_path = \<lparr> dirname = ''/models'', basename = ''scene'', extname = ''.gltf'' \<rparr>"

definition sample_txt_path :: file_path where
  "sample_txt_path = \<lparr> dirname = ''/models'', basename = ''notes'', extname = ''.txt'' \<rparr>"

definition sample_store :: store where
  "sample_store = [inputPath sample_glb_path \<mapsto> sample_glb_bin]"

definition sample_gltf_store :: store where
  "sample_gltf_store =
     [full_path sample_gltf_path \<mapsto> ascii sample_gltf_text,
      ''/models/scene.bin'' \<mapsto> [1, 2, 3, 4]]"

text \<open>
  Transform tools for the examples: one that answers each of the three commands with a
  fixed result, one that always succeeds, one that refuses to overwrite a file that is
  already at its output path, and one whose first command fails after it has written two
  bytes; the caller's options with every field left out; and a store that holds leftovers
  of an earlier run at the three paths the steps write to.
\<close>

definition stub_tool :: "transform_result \<Rightarrow> transform_result \<Rightarrow> transform_result \<Rightarrow> port" where
  "stub_tool r1 r2 r3 cmd st =
     (case cmd of Optimize i out' c \<Rightarrow> r1 | Resize i out' n \<Rightarrow> r2 | Webp i out' \<Rightarrow> r3)"

definition ok_tool :: port where
  "ok_tool = stub_tool (Written sample_glb) (Written sample_glb) (Written sample_glb)"

definition no_clobber_tool :: port where
  "no_clobber_tool cmd st = (if st (output_of cmd) = None then Written sample_glb else Failed None)"

definition failing_tool :: port where
  "failing_tool = stub_tool (Failed (Some [0, 1])) (Written sample_glb) (Written sample_glb)"

definition no_options :: options where
  "no_options = \<lparr> compressDraco = None, resizeTextures = None, maxTextureSize = None,
                  backupOriginal = None \<rparr>"

definition stale_store :: store where
  "stale_store = sample_store(outputPath sample_glb_path \<mapsto> junk, tempPath sample_glb_path \<mapsto> junk,
     tempPath2 sample_glb_path \<mapsto> junk)"

section \<open>Lemmas\<close>

subsection \<open>The validator\<close>

lemmas sample_defs = sample_json_text_def sample_json_def sample_gltf_text_def sample_gltf_def
  sample_runtime_def uint32LE_def sample_glb_def sample_glb_bin_def truncated_glb_def
  truncated_header_glb_def sample_glb_path_def sample_gltf_path_def sample_txt_path_def

lemmas validator_defs = validateGltfModel_def validate_glb_def validate_gltf_def gltf_try_def
  glb_json_chunk_def glb_json_try_def chunk_step_def readUInt32LE_def buffer_slice_def ascii_def
  endsWith_def full_path_def path_join_def

lemma endsWith_last:
  assumes "endsWith s t" and "t \<noteq> []"
  shows "last s = last t"
proof -
  from assms(1) have d: "drop (length s - length t) s = t"
    by (simp add: endsWith_def)
  have "take (length s - length t) s @ drop (length s - length t) s = s"
    by (rule append_take_drop_id)
  with d have "take (length s - length t) s @ t = s" by simp
  moreover have "last (take (length s - length t) s @ t) = last t"
    using assms(2) by simp
  ultimately show ?thesis by simp
qed

lemma glb_not_gltf: "endsWith s ''.glb'' \<Longrightarrow> \<not> endsWith s ''.gltf''"
proof
  assume a: "endsWith s ''.glb''" and b: "endsWith s ''.gltf''"
  from endsWith_last [OF a] endsWith_last [OF b] show False by simp
qed

lemma readUInt32LE_bound: "readUInt32LE content offset = Some n \<Longrightarrow> n < 2 ^ 32"
proof -
  assume a: "readUInt32LE content offset = Some n"
  have b: "unat (w :: byte) < 256" for w
    using unsigned_less [of w, where 'a = nat] by simp
  from a have "n = unat (content ! offset) + 256 * unat (content ! (offset + 1))
      + 65536 * unat (content ! (offset + 2)) + 16777216 * unat (content ! (offset + 3))"
    by (simp add: readUInt32LE_def split: if_splits)
  with b [of "content ! offset"] b [of "content ! (offset + 1)"]
    b [of "content ! (offset + 2)"] b [of "content ! (offset + 3)"]
  have "n < 4294967296" by linarith
  then show ?thesis by simp
qed

lemma chunk_step_advances:
  "chunk_step rt content offset hj hb = Inr (offset', hj', hb') \<Longrightarrow> offset + 8 \<le> offset'"
  by (auto simp: chunk_step_def split: if_splits option.splits)

lemma chunk_scan_fuel_enough:
  "(length content - offset) div 8 < fuel \<Longrightarrow>
   chunk_scan_fuel fuel rt content offset hj hb = Some (chunk_scan rt content offset hj hb)"
proof (induction fuel arbitrary: offset hj hb)
  case 0
  then show ?case by simp
next
  case (Suc n)
  show ?case
  proof (cases "offset < length content")
    case False
    then show ?thesis by simp
  next
    case True
    show ?thesis
    proof (cases "chunk_step rt content offset hj hb")
      case (Inl r)
      with True show ?thesis by simp
    next
      case (Inr t)
      obtain offset' hj' hb' where t: "t = (offset', hj', hb')" by (cases t) auto
      from Inr t have adv: "offset + 8 \<le> offset'" using chunk_step_advances by blast
      from Inr t have le: "offset + 8 \<le> length content"
        by (auto simp: chunk_step_def split: if_splits)
      have "length content - offset' \<le> length content - offset - 8"
        using adv by arith
      then have "(length content - offset') div 8 \<le> (length content - offset - 8) div 8"
        by (rule div_le_mono)
      moreover have "(length content - offset) div 8 = Suc ((length content - offset - 8) div 8)"
        using le by (intro le_div_geq) simp_all
      ultimately have "(length content - offset') div 8 < n"
        using Suc.prems by linarith
      then have "chunk_scan_fuel n rt content offset' hj' hb' = Some (chunk_scan rt content offset' hj' hb')"
        by (rule Suc.IH)
      with True Inr t show ?thesis by simp
    qed
  qed
qed

lemma member_version_truthy: "member a ''version'' = Some (Val v) \<Longrightarrow> truthy a"
  by (cases "(a, ''version'')" rule: member.cases) (auto split: if_splits)

lemma sample_glb_valid:
  "st (inputPath sample_glb_path) = Some sample_glb_bin \<Longrightarrow>
   validateGltfModel sample_runtime st sample_glb_path = Valid"
  by (simp add: validator_defs sample_defs inputPath_def)

lemma sample_glb_valid2:
  "st (inputPath sample_glb_path) = Some sample_glb \<Longrightarrow>
   validateGltfModel sample_runtime st sample_glb_path = Valid"
  by (simp add: validator_defs sample_defs inputPath_def)

subsection \<open>The derived paths are distinct\<close>

lemmas path_defs = inputPath_def outputPath_def backupPath_def tempPath_def tempPath2_def
  binPath_def binBackupPath_def String_replace_def full_path_def path_join_def

lemma find_first_decomp: "find_first pat s = Some (b, a) \<Longrightarrow> s = b @ pat @ a"
proof (induction s arbitrary: b)
  case Nil
  then show ?case by (simp split: if_splits)
next
  case (Cons c s)
  show ?case
  proof (cases "take (length pat) (c # s) = pat")
    case True
    with Cons.prems have "b = []" and "a = drop (length pat) (c # s)" by simp_all
    moreover have "take (length pat) (c # s) @ drop (length pat) (c # s) = c # s"
      by (rule append_take_drop_id)
    ultimately show ?thesis using True by simp
  next
    case False
    with Cons.prems obtain b' where "find_first pat s = Some (b', a)" and "b = c # b'"
      by (auto split: if_splits)
    with Cons.IH show ?thesis by simp
  qed
qed

lemma find_first_prefix:
  "take (length pat) s = pat \<Longrightarrow> find_first pat s = Some ([], drop (length pat) s)"
  by (cases s) auto

lemma find_first_found: "find_first pat (x @ pat @ y) \<noteq> None"
proof (induction x)
  case Nil
  show ?case using find_first_prefix [of pat "pat @ y"] by simp
next
  case (Cons c x)
  then show ?case by auto
qed

lemma substitution_plain:
  "c \<noteq> CHR ''$'' \<Longrightarrow> substitution m b a (c # r) = c # substitution m b a r"
  by (cases r) simp_all

lemma temp_paths_shape:
  obtains b a where
    "outputPath p = b @ extname p @ a"
    "tempPath p = b @ ''-temp'' @ substitution (extname p) b a (extname p) @ a"
    "tempPath2 p = b @ ''-temp2'' @ substitution (extname p) b a (extname p) @ a"
proof -
  have "find_first (extname p) (outputPath p) \<noteq> None"
    using find_first_found [of "extname p" "dirname p @ ''/'' @ basename p @ ''-optimized''" "[]"]
    by (simp add: outputPath_def path_join_def)
  then obtain b a where f: "find_first (extname p) (outputPath p) = Some (b, a)"
    by auto
  have "outputPath p = b @ extname p @ a"
    using find_first_decomp [OF f] .
  moreover have "tempPath p = b @ ''-temp'' @ substitution (extname p) b a (extname p) @ a"
    using f by (simp add: tempPath_def String_replace_def substitution_plain)
  moreover have "tempPath2 p = b @ ''-temp2'' @ substitution (extname p) b a (extname p) @ a"
    using f by (simp add: tempPath2_def String_replace_def substitution_plain)
  ultimately show ?thesis by (rule that)
qed

lemma mismatch:
  assumes "out = pre @ a # s1" and "temp = pre @ b # s2"
    and "out = D @ c # s3" and "X = D @ d # s4"
    and "a \<noteq> b" and "c \<noteq> d" and "a \<noteq> c"
  shows "temp \<noteq> X"
proof
  assume eq: "temp = X"
  consider "length pre < length D" | "length pre = length D" | "length D < length pre"
    by linarith
  then show False
  proof cases
    case 1
    have "X ! length pre = D ! length pre" using 1 assms(4) by (simp add: nth_append)
    also have "\<dots> = out ! length pre" using 1 assms(3) by (simp add: nth_append)
    also have "\<dots> = a" using assms(1) by simp
    finally have "X ! length pre = a" .
    moreover have "temp ! length pre = b" using assms(2) by simp
    ultimately show False using eq assms(5) by simp
  next
    case 2
    have "out ! length pre = a" using assms(1) by simp
    moreover have "out ! length pre = c" using assms(3) 2 by simp
    ultimately show False using assms(7) by simp
  next
    case 3
    have "temp ! length D = pre ! length D" using 3 assms(2) by (simp add: nth_append)
    also have "\<dots> = out ! length D" using 3 assms(1) by (simp add: nth_append)
    also have "\<dots> = c" using assms(3) by simp
    finally have "temp ! length D = c" .
    moreover have "X ! length D = d" using assms(4) by simp
    ultimately show False using eq assms(6) by simp
  qed
qed

lemma base_paths_distinct:
  "inputPath p \<noteq> outputPath p" "inputPath p \<noteq> backupPath p" "outputPath p \<noteq> backupPath p"
  by (auto simp: inputPath_def outputPath_def backupPath_def full_path_def path_join_def
      dest: arg_cong [where f = length])

lemma temp_neq_temp2: "tempPath p \<noteq> tempPath2 p"
proof -
  obtain b a where "tempPath p = b @ ''-temp'' @ substitution (extname p) b a (extname p) @ a"
    "tempPath2 p = b @ ''-temp2'' @ substitution (extname p) b a (extname p) @ a"
    by (rule temp_paths_shape)
  then show ?thesis by (auto dest: arg_cong [where f = length])
qed

lemma temp_not_base:
  assumes "well_formed p"
    and "out = outputPath p" "out = b @ extname p @ a" and "t = b @ CHR ''-'' # rest"
    and "extname p = [] \<Longrightarrow> length out < length t"
  shows "t \<noteq> inputPath p" "t \<noteq> outputPath p" "t \<noteq> backupPath p"
proof -
  let ?D = "dirname p @ ''/'' @ basename p"
  show "t \<noteq> outputPath p"
  proof (cases "extname p")
    case Nil
    with assms(2) assms(5) [OF Nil] show ?thesis by auto
  next
    case (Cons c r)
    with assms(1) have c: "c = CHR ''.''" by (simp add: well_formed_def)
    have "out = b @ CHR ''.'' # (r @ a)" using assms(3) Cons c by simp
    then have "t \<noteq> out" unfolding assms(4) by simp
    with assms(2) show ?thesis by simp
  qed
  show "t \<noteq> inputPath p"
  proof (cases "extname p")
    case Nil
    then have "length (inputPath p) < length (outputPath p)"
      by (simp add: inputPath_def outputPath_def full_path_def path_join_def)
    with assms(2) assms(5) [OF Nil] show ?thesis by auto
  next
    case (Cons c r)
    with assms(1) have c: "c = CHR ''.''" by (simp add: well_formed_def)
    have 1: "out = b @ CHR ''.'' # (r @ a)" using assms(3) Cons c by simp
    have 3: "out = ?D @ CHR ''-'' # (''optimized'' @ extname p)"
      using assms(2) by (simp add: outputPath_def path_join_def)
    have 4: "inputPath p = ?D @ CHR ''.'' # r"
      using Cons c by (simp add: inputPath_def full_path_def path_join_def)
    show ?thesis
      by (rule mismatch [OF 1 assms(4) 3 4]) simp_all
  qed
  show "t \<noteq> backupPath p"
  proof (cases "extname p")
    case Nil
    then have "length (backupPath p) < length (outputPath p)"
      by (simp add: backupPath_def outputPath_def full_path_def path_join_def)
    with assms(2) assms(5) [OF Nil] show ?thesis by auto
  next
    case (Cons c r)
    with assms(1) have c: "c = CHR ''.''" by (simp add: well_formed_def)
    have 1: "out = b @ CHR ''.'' # (r @ a)" using assms(3) Cons c by simp
    have 3: "out = (?D @ ''-o'') @ CHR ''p'' # (''timized'' @ extname p)"
      using assms(2) by (simp add: outputPath_def path_join_def)
    have 4: "backupPath p = (?D @ ''-o'') @ CHR ''r'' # (''iginal'' @ extname p)"
      by (simp add: backupPath_def path_join_def)
    show ?thesis
      by (rule mismatch [OF 1 assms(4) 3 4]) simp_all
  qed
qed

lemma temp_paths_distinct:
  assumes "well_formed p"
  shows "tempPath p \<noteq> inputPath p" "tempPath p \<noteq> outputPath p" "tempPath p \<noteq> backupPath p"
    "tempPath2 p \<noteq> inputPath p" "tempPath2 p \<noteq> outputPath p" "tempPath2 p \<noteq> backupPath p"
proof -
  obtain b a where o: "outputPath p = b @ extname p @ a"
    and t: "tempPath p = b @ ''-temp'' @ substitution (extname p) b a (extname p) @ a"
    and t2: "tempPath2 p = b @ ''-temp2'' @ substitution (extname p) b a (extname p) @ a"
    by (rule temp_paths_shape)
  have t': "tempPath p = b @ CHR ''-'' # (''temp'' @ substitution (extname p) b a (extname p) @ a)"
    using t by simp
  have t2': "tempPath2 p = b @ CHR ''-'' # (''temp2'' @ substitution (extname p) b a (extname p) @ a)"
    using t2 by simp
  have l: "extname p = [] \<Longrightarrow> length (outputPath p) < length (tempPath p)"
    using o t by (simp add: arg_cong [OF o, where f = length])
  have l2: "extname p = [] \<Longrightarrow> length (outputPath p) < length (tempPath2 p)"
    using o t2 by (simp add: arg_cong [OF o, where f = length])
  show "tempPath p \<noteq> inputPath p" "tempPath p \<noteq> outputPath p" "tempPath p \<noteq> backupPath p"
    using temp_not_base [OF assms refl o t' l] by simp_all
  show "tempPath2 p \<noteq> inputPath p" "tempPath2 p \<noteq> outputPath p" "tempPath2 p \<noteq> backupPath p"
    using temp_not_base [OF assms refl o t2' l2] by simp_all
qed

lemma scene_backup_distinct:
  assumes "extname p = ''.gltf''"
  shows "binBackupPath p \<noteq> inputPath p" "binBackupPath p \<noteq> outputPath p"
    "binBackupPath p \<noteq> backupPath p" "binBackupPath p \<noteq> tempPath p"
    "binBackupPath p \<noteq> tempPath2 p"
proof -
  obtain b a where o: "outputPath p = b @ extname p @ a"
    and t: "tempPath p = b @ ''-temp'' @ substitution (extname p) b a (extname p) @ a"
    and t2: "tempPath2 p = b @ ''-temp2'' @ substitution (extname p) b a (extname p) @ a"
    by (rule temp_paths_shape)
  have s: "substitution (extname p) b a (extname p) = ''.gltf''"
    using assms by simp
  have lb: "last (binBackupPath p) = CHR ''n''"
    by (simp add: binBackupPath_def path_join_def)
  have "last (inputPath p) = CHR ''f''" "last (outputPath p) = CHR ''f''"
    "last (backupPath p) = CHR ''f''"
    using assms by (simp_all add: inputPath_def outputPath_def backupPath_def full_path_def path_join_def)
  moreover have "last (b @ ''.gltf'' @ a) = CHR ''f''"
    using o assms \<open>last (outputPath p) = CHR ''f''\<close> by simp
  then have "last (tempPath p) = CHR ''f''" "last (tempPath2 p) = CHR ''f''"
    using t t2 s by (simp_all split: if_splits)
  ultimately show "binBackupPath p \<noteq> inputPath p" "binBackupPath p \<noteq> outputPath p"
    "binBackupPath p \<noteq> backupPath p" "binBackupPath p \<noteq> tempPath p"
    "binBackupPath p \<noteq> tempPath2 p"
    using lb by auto
qed

lemma sample_glb_path_well_formed: "well_formed sample_glb_path"
  by (simp add: well_formed_def sample_defs)

lemma sample_paths:
  "inputPath sample_glb_path = ''/models/robot.glb''"
  "outputPath sample_glb_path = ''/models/robot-optimized.glb''"
  "backupPath sample_glb_path = ''/models/robot-original.glb''"
  "tempPath sample_glb_path = ''/models/robot-optimized-temp.glb''"
  "tempPath2 sample_glb_path = ''/models/robot-optimized-temp2.glb''"
  by (simp_all add: path_defs sample_glb_path_def)

lemma sample_ext: "extname sample_glb_path = ''.glb''"
  by (simp add: sample_glb_path_def)

subsection \<open>The stages\<close>

lemmas action_defs = block_def and_then_def no_op_def try_catch_def whenever_def
  console_log_def existsSync_def unlinkSync_def renameSync_def copyFileSync_def execSync_def

lemma block_Nil: "block [] w = (True, w)"
  by (simp add: block_def no_op_def)

lemma block_Cons:
  "block (a # as) w = (case a w of (ok, w') \<Rightarrow> if ok then block as w' else (False, w'))"
  unfolding block_def by (simp add: and_then_def)

lemma resize_stage_failed:
  assumes "resize cfg" and "tool (Resize (outputPath p) (tempPath p) (maxSize cfg)) st = Failed x"
  shows "resize_stage tool cfg p (st, lg) =
    (True, st(tempPath p := None),
       lg @ [Etape 2, Exec (Resize (outputPath p) (tempPath p) (maxSize cfg)),
             Redimensionnement_a_echoue])"
  using assms by (cases x; cases "st (tempPath p)") (auto simp: resize_stage_def action_defs)

lemma resize_stage_skipped:
  "\<not> resize cfg \<Longrightarrow> resize_stage tool cfg p w = (True, w)"
  by (simp add: resize_stage_def whenever_def)

lemma resize_stage_written:
  assumes "resize cfg" and "tool (Resize (outputPath p) (tempPath p) (maxSize cfg)) st = Written b"
    and "st (outputPath p) = Some c" and "tempPath p \<noteq> outputPath p"
  shows "resize_stage tool cfg p (st, lg) =
    (True, st(tempPath p := None, outputPath p \<mapsto> b),
       lg @ [Etape 2, Exec (Resize (outputPath p) (tempPath p) (maxSize cfg))])"
  using assms by (auto simp: resize_stage_def action_defs fun_upd_twist)

lemma webp_stage_failed:
  assumes "tool (Webp (outputPath p) (tempPath2 p)) st = Failed x"
  shows "webp_stage tool p (st, lg) =
    (True, st(tempPath2 p := None),
       lg @ [Etape 3, Exec (Webp (outputPath p) (tempPath2 p)), Compression_WebP_a_echoue])"
  using assms by (cases x; cases "st (tempPath2 p)") (auto simp: webp_stage_def action_defs)

lemma webp_stage_written:
  assumes "tool (Webp (outputPath p) (tempPath2 p)) st = Written b"
    and "st (outputPath p) = Some c" and "tempPath2 p \<noteq> outputPath p"
  shows "webp_stage tool p (st, lg) =
    (True, st(tempPath2 p := None, outputPath p \<mapsto> b),
       lg @ [Etape 3, Exec (Webp (outputPath p) (tempPath2 p))])"
  using assms by (auto simp: webp_stage_def action_defs fun_upd_twist)

lemma resize_stage_props:
  assumes "st (outputPath p) = Some c" and "tempPath p \<noteq> outputPath p"
  obtains st' lg' where
    "resize_stage tool cfg p (st, lg) = (True, st', lg @ lg')"
    "st' (outputPath p) \<noteq> None"
    "resize cfg \<Longrightarrow> st' (tempPath p) = None"
    "\<And>q. q \<noteq> outputPath p \<Longrightarrow> q \<noteq> tempPath p \<Longrightarrow> st' q = st q"
    "Fichier_remplace \<notin> set lg'"
proof (cases "resize cfg")
  case False
  from resize_stage_skipped [OF False, of tool p "(st, lg)"] assms False
  show ?thesis by (intro that [of st "[]"]) simp_all
next
  case True
  show ?thesis
  proof (cases "tool (Resize (outputPath p) (tempPath p) (maxSize cfg)) st")
    case (Written b)
    from resize_stage_written [where tool = tool and cfg = cfg and p = p and st = st and b = b
        and c = c and lg = lg] True Written assms
    show ?thesis by (intro that [of "st(tempPath p := None, outputPath p \<mapsto> b)"
          "[Etape 2, Exec (Resize (outputPath p) (tempPath p) (maxSize cfg))]"]) simp_all
  next
    case (Failed x)
    from resize_stage_failed [where tool = tool and cfg = cfg and p = p and st = st and x = x
        and lg = lg] True Failed assms
    show ?thesis by (intro that [of "st(tempPath p := None)"
          "[Etape 2, Exec (Resize (outputPath p) (tempPath p) (maxSize cfg)),
            Redimensionnement_a_echoue]"]) simp_all
  qed
qed

lemma webp_stage_props:
  assumes "st (outputPath p) = Some c" and "tempPath2 p \<noteq> outputPath p"
  obtains st' lg' where
    "webp_stage tool p (st, lg) = (True, st', lg @ lg')"
    "st' (outputPath p) \<noteq> None"
    "st' (tempPath2 p) = None"
    "\<And>q. q \<noteq> outputPath p \<Longrightarrow> q \<noteq> tempPath2 p \<Longrightarrow> st' q = st q"
    "Fichier_remplace \<notin> set lg'"
proof (cases "tool (Webp (outputPath p) (tempPath2 p)) st")
  case (Written b)
  from webp_stage_written [where tool = tool and p = p and st = st and b = b
      and c = c and lg = lg] Written assms
  show ?thesis by (intro that [of "st(tempPath2 p := None, outputPath p \<mapsto> b)"
        "[Etape 3, Exec (Webp (outputPath p) (tempPath2 p))]"]) simp_all
next
  case (Failed x)
  from webp_stage_failed [where tool = tool and p = p and st = st and x = x and lg = lg]
    Failed assms
  show ?thesis by (intro that [of "st(tempPath2 p := None)"
        "[Etape 3, Exec (Webp (outputPath p) (tempPath2 p)), Compression_WebP_a_echoue]"]) simp_all
qed

lemma resize_stage_eq:
  assumes "resize cfg" and "tempPath p \<noteq> outputPath p"
  shows "resize_stage tool cfg p (s, lg) =
    (case tool (Resize (outputPath p) (tempPath p) (maxSize cfg)) s of
       Failed x \<Rightarrow>
         (True, s(tempPath p := None),
          lg @ [Etape 2, Exec (Resize (outputPath p) (tempPath p) (maxSize cfg)),
                Redimensionnement_a_echoue])
     | Written b \<Rightarrow>
         if s (outputPath p) = None
         then (True, s(tempPath p := None),
               lg @ [Etape 2, Exec (Resize (outputPath p) (tempPath p) (maxSize cfg)),
                     Redimensionnement_a_echoue])
         else (True, s(tempPath p := None, outputPath p \<mapsto> b),
               lg @ [Etape 2, Exec (Resize (outputPath p) (tempPath p) (maxSize cfg))]))"
proof (cases "tool (Resize (outputPath p) (tempPath p) (maxSize cfg)) s")
  case (Failed x)
  with resize_stage_failed [where tool = tool and cfg = cfg and p = p and st = s and x = x
      and lg = lg] assms show ?thesis by simp
next
  case (Written b)
  show ?thesis
  proof (cases "s (outputPath p)")
    case (Some c)
    with resize_stage_written [where tool = tool and cfg = cfg and p = p and st = s and b = b
        and c = c and lg = lg] assms Written show ?thesis by simp
  next
    case None
    with assms Written show ?thesis
      by (auto simp: resize_stage_def action_defs)
  qed
qed

lemma webp_stage_eq:
  assumes "tempPath2 p \<noteq> outputPath p"
  shows "webp_stage tool p (s, lg) =
    (case tool (Webp (outputPath p) (tempPath2 p)) s of
       Failed x \<Rightarrow>
         (True, s(tempPath2 p := None),
          lg @ [Etape 3, Exec (Webp (outputPath p) (tempPath2 p)), Compression_WebP_a_echoue])
     | Written b \<Rightarrow>
         if s (outputPath p) = None
         then (True, s(tempPath2 p := None),
               lg @ [Etape 3, Exec (Webp (outputPath p) (tempPath2 p)),
                     Compression_WebP_a_echoue])
         else (True, s(tempPath2 p := None, outputPath p \<mapsto> b),
               lg @ [Etape 3, Exec (Webp (outputPath p) (tempPath2 p))]))"
proof (cases "tool (Webp (outputPath p) (tempPath2 p)) s")
  case (Failed x)
  with webp_stage_failed [where tool = tool and p = p and st = s and x = x and lg = lg]
  show ?thesis by simp
next
  case (Written b)
  show ?thesis
  proof (cases "s (outputPath p)")
    case (Some c)
    with webp_stage_written [where tool = tool and p = p and st = s and b = b
        and c = c and lg = lg] assms Written show ?thesis by simp
  next
    case None
    with assms Written show ?thesis
      by (auto simp: webp_stage_def action_defs)
  qed
qed

lemma report_eq:
  "report cfg (st, lg) =
     (True, st, lg @ [Optimisation_terminee] @ (if compress cfg then [Applique_Draco] else [])
        @ (if resize cfg then [Applique_redimensionnement (maxSize cfg)] else [])
        @ [Applique_WebP, Applique_gltf_transform])"
  by (simp add: report_def action_defs)

lemma replace_original_props:
  assumes "st (inputPath p) = Some orig" and "st (outputPath p) = Some fin"
  obtains st' where
    "replace_original cfg p (st, lg) =
       (True, st', lg @ (if backup cfg \<and> st (backupPath p) = None then [Sauvegarde_de_l_original] else [])
          @ [Remplacement_du_fichier, Fichier_remplace])"
    "st' (inputPath p) = Some fin"
    "st' (outputPath p) = None"
    "st' (backupPath p) = (if backup cfg \<and> st (backupPath p) = None then Some orig else st (backupPath p))"
    "\<And>q. q \<noteq> inputPath p \<Longrightarrow> q \<noteq> outputPath p \<Longrightarrow> q \<noteq> backupPath p \<Longrightarrow>
       (extname p = ''.gltf'' \<longrightarrow> q \<noteq> binBackupPath p) \<Longrightarrow> st' q = st q"
proof -
  note d = base_paths_distinct [of p]
  let ?r = "replace_original cfg p (st, lg)"
  show ?thesis
  proof (cases "extname p = ''.gltf''")
    case False
    show ?thesis
      apply (rule that [of "fst (snd ?r)"])
      using assms d False
      by (auto simp: replace_original_def action_defs)
  next
    case True
    note s = scene_backup_distinct [OF True]
    show ?thesis
      apply (rule that [of "fst (snd ?r)"])
      using assms d s True
      by (auto simp: replace_original_def action_defs)
  qed
qed

subsection \<open>A whole run\<close>

lemma optimizeModel_invalid:
  "validateGltfModel rt st p = Invalid r \<Longrightarrow>
   optimizeModel rt tool opts p st = (True, st, [Modele_invalide r])"
  by (simp add: optimizeModel_def console_log_def)

lemma optimizeModel_mandatory_failed:
  assumes "validateGltfModel rt st p = Valid"
    and "tool (Optimize (inputPath p) (outputPath p) (compress (destructure opts))) st = Failed x"
  shows "optimizeModel rt tool opts p st =
    (True, st(outputPath p := None),
     [Modele_valide, Etape 1,
      Exec (Optimize (inputPath p) (outputPath p) (compress (destructure opts))),
      Erreur_lors_de_l_optimisation])"
  using assms
  by (cases x; cases "st (outputPath p)")
     (auto simp: optimizeModel_def optimize_try_def action_defs)

lemma valid_exists:
  "validateGltfModel rt st p = Valid \<Longrightarrow> \<exists>orig. st (inputPath p) = Some orig"
  by (auto simp: validateGltfModel_def inputPath_def split: option.splits if_splits)

lemma after_mandatory:
  assumes wf: "well_formed p"
    and i: "st (inputPath p) = Some orig" and o: "st (outputPath p) = Some b1"
  obtains st' lg' where
    "block [resize_stage tool cfg p, webp_stage tool p, report cfg, replace_original cfg p] (st, lg)
       = (True, st', lg @ lg')"
    "st' (inputPath p) \<noteq> None"
    "st' (outputPath p) = None"
    "st' (tempPath2 p) = None"
    "resize cfg \<Longrightarrow> st' (tempPath p) = None"
    "st' (backupPath p) = (if backup cfg \<and> st (backupPath p) = None then Some orig else st (backupPath p))"
    "Fichier_remplace \<in> set lg'"
proof -
  note d = base_paths_distinct [of p] temp_paths_distinct [OF wf] temp_neq_temp2 [of p]
  obtain st2 lg2 where r:
    "resize_stage tool cfg p (st, lg) = (True, st2, lg @ lg2)"
    "st2 (outputPath p) \<noteq> None"
    "resize cfg \<Longrightarrow> st2 (tempPath p) = None"
    "\<And>q. q \<noteq> outputPath p \<Longrightarrow> q \<noteq> tempPath p \<Longrightarrow> st2 q = st q"
    "Fichier_remplace \<notin> set lg2"
    by (rule resize_stage_props [where st = st and p = p and tool = tool and cfg = cfg and lg = lg,
          OF o d(5)]) blast
  from r(2) obtain c2 where o2: "st2 (outputPath p) = Some c2" by auto
  obtain st3 lg3 where w:
    "webp_stage tool p (st2, lg @ lg2) = (True, st3, (lg @ lg2) @ lg3)"
    "st3 (outputPath p) \<noteq> None"
    "st3 (tempPath2 p) = None"
    "\<And>q. q \<noteq> outputPath p \<Longrightarrow> q \<noteq> tempPath2 p \<Longrightarrow> st3 q = st2 q"
    "Fichier_remplace \<notin> set lg3"
    by (rule webp_stage_props [where st = st2 and p = p and tool = tool and lg = "lg @ lg2",
          OF o2 d(8)]) blast
  from w(2) obtain c3 where o3: "st3 (outputPath p) = Some c3" by auto
  have i3: "st3 (inputPath p) = Some orig"
    using w(4) [of "inputPath p"] r(4) [of "inputPath p"] d i by simp
  have b3: "st3 (backupPath p) = st (backupPath p)"
    using w(4) [of "backupPath p"] r(4) [of "backupPath p"] d by simp
  have t3: "resize cfg \<Longrightarrow> st3 (tempPath p) = None"
    using w(4) [of "tempPath p"] r(3) d by simp
  obtain lg4 where rep: "report cfg (st3, (lg @ lg2) @ lg3) = (True, st3, ((lg @ lg2) @ lg3) @ lg4)"
    using report_eq [of cfg st3 "(lg @ lg2) @ lg3"] by simp
  define lg5 where "lg5 = (if backup cfg \<and> st3 (backupPath p) = None then [Sauvegarde_de_l_original] else [])
          @ [Remplacement_du_fichier, Fichier_remplace]"
  have m5: "Fichier_remplace \<in> set lg5" by (simp add: lg5_def)
  obtain st5 where f:
    "replace_original cfg p (st3, ((lg @ lg2) @ lg3) @ lg4) = (True, st5, (((lg @ lg2) @ lg3) @ lg4) @ lg5)"
    "st5 (inputPath p) = Some c3"
    "st5 (outputPath p) = None"
    "st5 (backupPath p) = (if backup cfg \<and> st3 (backupPath p) = None then Some orig else st3 (backupPath p))"
    "\<And>q. q \<noteq> inputPath p \<Longrightarrow> q \<noteq> outputPath p \<Longrightarrow> q \<noteq> backupPath p \<Longrightarrow>
       (extname p = ''.gltf'' \<longrightarrow> q \<noteq> binBackupPath p) \<Longrightarrow> st5 q = st3 q"
    unfolding lg5_def
    by (rule replace_original_props [where st = st3 and p = p and cfg = cfg
          and lg = "((lg @ lg2) @ lg3) @ lg4", OF i3 o3]) blast
  have "block [resize_stage tool cfg p, webp_stage tool p, report cfg, replace_original cfg p] (st, lg)
       = (True, st5, lg @ (lg2 @ lg3 @ lg4 @ lg5))"
    using r(1) w(1) rep f(1) by (simp add: block_Cons block_Nil)
  moreover have "st5 (tempPath2 p) = None"
    using f(5) [of "tempPath2 p"] w(3) d scene_backup_distinct [of p]
    by (cases "extname p = ''.gltf''") auto
  moreover have "resize cfg \<Longrightarrow> st5 (tempPath p) = None"
    using f(5) [of "tempPath p"] t3 d scene_backup_distinct [of p]
    by (cases "extname p = ''.gltf''") auto
  ultimately show ?thesis
    using f b3 m5 by (intro that [of st5 "lg2 @ lg3 @ lg4 @ lg5"]) simp_all
qed

lemma optimizeModel_mandatory_written:
  assumes v: "validateGltfModel rt st p = Valid" and wf: "well_formed p"
    and t: "tool (Optimize (inputPath p) (outputPath p) (compress (destructure opts))) st = Written b1"
  obtains st' lg' where
    "optimizeModel rt tool opts p st =
       (True, st', [Modele_valide, Etape 1,
          Exec (Optimize (inputPath p) (outputPath p) (compress (destructure opts)))] @ lg')"
    "st' (inputPath p) \<noteq> None"
    "st' (outputPath p) = None"
    "st' (tempPath2 p) = None"
    "resize (destructure opts) \<Longrightarrow> st' (tempPath p) = None"
    "st' (backupPath p) =
       (if backup (destructure opts) \<and> st (backupPath p) = None then st (inputPath p)
        else st (backupPath p))"
    "Fichier_remplace \<in> set lg'"
proof -
  note d = base_paths_distinct [of p]
  let ?cfg = "destructure opts"
  let ?lg = "[Modele_valide, Etape 1, Exec (Optimize (inputPath p) (outputPath p) (compress ?cfg))]"
  let ?st1 = "st(outputPath p \<mapsto> b1)"
  from valid_exists [OF v] obtain orig where i: "st (inputPath p) = Some orig" by auto
  have i1: "?st1 (inputPath p) = Some orig" using i d by simp
  have o1: "?st1 (outputPath p) = Some b1" by simp
  obtain st' lg' where a:
    "block [resize_stage tool ?cfg p, webp_stage tool p, report ?cfg, replace_original ?cfg p] (?st1, ?lg)
       = (True, st', ?lg @ lg')"
    "st' (inputPath p) \<noteq> None"
    "st' (outputPath p) = None"
    "st' (tempPath2 p) = None"
    "resize ?cfg \<Longrightarrow> st' (tempPath p) = None"
    "st' (backupPath p) = (if backup ?cfg \<and> ?st1 (backupPath p) = None then Some orig else ?st1 (backupPath p))"
    "Fichier_remplace \<in> set lg'"
    by (rule after_mandatory [where st = ?st1 and p = p and tool = tool and cfg = ?cfg and lg = ?lg,
          OF wf i1 o1]) blast
  have "optimizeModel rt tool opts p st = (True, st', ?lg @ lg')"
    using v t a(1)
    by (simp add: optimizeModel_def optimize_try_def block_Cons block_Nil try_catch_def
        console_log_def execSync_def)
  with a i d show ?thesis
    by (intro that [of st' lg']) simp_all
qed

lemma optimizeModel_mandatory_written_eq:
  assumes v: "validateGltfModel rt st p = Valid" and wf: "well_formed p"
    and t: "tool (Optimize (inputPath p) (outputPath p) (compress (destructure opts))) st = Written b1"
  shows "optimizeModel rt tool opts p st =
    block [resize_stage tool (destructure opts) p, webp_stage tool p, report (destructure opts),
           replace_original (destructure opts) p]
      (st(outputPath p \<mapsto> b1),
       [Modele_valide, Etape 1,
        Exec (Optimize (inputPath p) (outputPath p) (compress (destructure opts)))])"
proof -
  note d = base_paths_distinct [of p]
  let ?cfg = "destructure opts"
  let ?lg = "[Modele_valide, Etape 1, Exec (Optimize (inputPath p) (outputPath p) (compress ?cfg))]"
  let ?st1 = "st(outputPath p \<mapsto> b1)"
  from valid_exists [OF v] obtain orig where i: "st (inputPath p) = Some orig" by auto
  have i1: "?st1 (inputPath p) = Some orig" using i d by simp
  have o1: "?st1 (outputPath p) = Some b1" by simp
  obtain st' lg' where a:
    "block [resize_stage tool ?cfg p, webp_stage tool p, report ?cfg, replace_original ?cfg p] (?st1, ?lg)
       = (True, st', ?lg @ lg')"
    "st' (inputPath p) \<noteq> None"
    "st' (outputPath p) = None"
    "st' (tempPath2 p) = None"
    "resize ?cfg \<Longrightarrow> st' (tempPath p) = None"
    "st' (backupPath p) = (if backup ?cfg \<and> ?st1 (backupPath p) = None then Some orig else ?st1 (backupPath p))"
    "Fichier_remplace \<in> set lg'"
    by (rule after_mandatory [where st = ?st1 and p = p and tool = tool and cfg = ?cfg and lg = ?lg,
          OF wf i1 o1]) blast
  have "optimizeModel rt tool opts p st = (True, st', ?lg @ lg')"
    using v t a(1)
    by (simp add: optimizeModel_def optimize_try_def block_Cons block_Nil try_catch_def
        console_log_def execSync_def)
  with a(1) show ?thesis by simp
qed

lemma committed_cases:
  assumes "committed (optimizeModel rt tool opts p st)"
  shows "validateGltfModel rt st p = Valid"
    and "\<exists>b1. tool (Optimize (inputPath p) (outputPath p) (compress (destructure opts))) st = Written b1"
proof -
  show v: "validateGltfModel rt st p = Valid"
  proof (cases "validateGltfModel rt st p")
    case Valid
    then show ?thesis .
  next
    case (Invalid r)
    from optimizeModel_invalid [OF Invalid, of tool opts] assms show ?thesis
      by (simp add: committed_def console_after_def)
  qed
  show "\<exists>b1. tool (Optimize (inputPath p) (outputPath p) (compress (destructure opts))) st = Written b1"
  proof (cases "tool (Optimize (inputPath p) (outputPath p) (compress (destructure opts))) st")
    case (Written b)
    then show ?thesis by blast
  next
    case (Failed x)
    from optimizeModel_mandatory_failed [where rt = rt and st = st and p = p and tool = tool
        and opts = opts and x = x, OF v Failed] assms
    show ?thesis by (simp add: committed_def console_after_def)
  qed
qed

lemma backup_preserved:
  assumes wf: "well_formed p" and b: "st (backupPath p) = Some c"
  shows "store_after (optimizeModel rt tool opts p st) (backupPath p) = Some c"
proof (cases "validateGltfModel rt st p")
  case (Invalid r)
  from optimizeModel_invalid [OF Invalid, of tool opts] b show ?thesis
    by (simp add: store_after_def)
next
  case Valid
  show ?thesis
  proof (cases "tool (Optimize (inputPath p) (outputPath p) (compress (destructure opts))) st")
    case (Failed x)
    from optimizeModel_mandatory_failed [where rt = rt and st = st and p = p and tool = tool
        and opts = opts and x = x, OF Valid Failed] b base_paths_distinct [of p]
    show ?thesis by (simp add: store_after_def)
  next
    case (Written b1)
    obtain st' lg' where
      "optimizeModel rt tool opts p st =
         (True, st', [Modele_valide, Etape 1,
            Exec (Optimize (inputPath p) (outputPath p) (compress (destructure opts)))] @ lg')"
      "st' (inputPath p) \<noteq> None"
      "st' (outputPath p) = None"
      "st' (tempPath2 p) = None"
      "resize (destructure opts) \<Longrightarrow> st' (tempPath p) = None"
      "st' (backupPath p) =
         (if backup (destructure opts) \<and> st (backupPath p) = None then st (inputPath p)
          else st (backupPath p))"
      "Fichier_remplace \<in> set lg'"
      by (rule optimizeModel_mandatory_written [where rt = rt and st = st and p = p
            and tool = tool and opts = opts and ?b1.0 = b1, OF Valid wf Written]) blast
    with b show ?thesis by (simp add: store_after_def)
  qed
qed

lemma leftovers_gone:
  assumes v: "validateGltfModel rt st p = Valid" and wf: "well_formed p"
  shows "store_after (optimizeModel rt tool opts p st) (outputPath p) = None
    \<and> (\<forall>x. tool (Optimize (inputPath p) (outputPath p) (compress (destructure opts))) st = Failed x
          \<longrightarrow> store_after (optimizeModel rt tool opts p st) = st(outputPath p := None))
    \<and> (\<forall>b1. tool (Optimize (inputPath p) (outputPath p) (compress (destructure opts))) st = Written b1
          \<longrightarrow> store_after (optimizeModel rt tool opts p st) (tempPath2 p) = None
              \<and> (resize (destructure opts)
                   \<longrightarrow> store_after (optimizeModel rt tool opts p st) (tempPath p) = None))
    \<and> (resize cfg \<longrightarrow> store_after (resize_stage tool cfg p (s, lg)) (tempPath p) = None)
    \<and> store_after (webp_stage tool p (s, lg)) (tempPath2 p) = None"
proof -
  note d = temp_paths_distinct [OF wf]
  have r: "store_after (resize_stage tool cfg p (s, lg)) (tempPath p) = None" if "resize cfg"
    using that d(2)
    by (cases "tool (Resize (outputPath p) (tempPath p) (maxSize cfg)) s";
        cases "s (outputPath p)")
       (auto simp: resize_stage_def action_defs store_after_def split: option.splits)
  have q: "store_after (webp_stage tool p (s, lg)) (tempPath2 p) = None"
    using d(5)
    by (cases "tool (Webp (outputPath p) (tempPath2 p)) s"; cases "s (outputPath p)")
       (auto simp: webp_stage_def action_defs store_after_def split: option.splits)
  have f: "store_after (optimizeModel rt tool opts p st) = st(outputPath p := None)"
    if "tool (Optimize (inputPath p) (outputPath p) (compress (destructure opts))) st = Failed x" for x
    using optimizeModel_mandatory_failed [where rt = rt and st = st and p = p and tool = tool
        and opts = opts and x = x, OF v that]
    by (simp add: store_after_def)
  have w: "store_after (optimizeModel rt tool opts p st) (outputPath p) = None
      \<and> store_after (optimizeModel rt tool opts p st) (tempPath2 p) = None
      \<and> (resize (destructure opts) \<longrightarrow> store_after (optimizeModel rt tool opts p st) (tempPath p) = None)"
    if t: "tool (Optimize (inputPath p) (outputPath p) (compress (destructure opts))) st = Written b1" for b1
  proof -
    obtain st' lg' where
      "optimizeModel rt tool opts p st =
         (True, st', [Modele_valide, Etape 1,
            Exec (Optimize (inputPath p) (outputPath p) (compress (destructure opts)))] @ lg')"
      "st' (inputPath p) \<noteq> None"
      "st' (outputPath p) = None"
      "st' (tempPath2 p) = None"
      "resize (destructure opts) \<Longrightarrow> st' (tempPath p) = None"
      "st' (backupPath p) =
         (if backup (destructure opts) \<and> st (backupPath p) = None then st (inputPath p)
          else st (backupPath p))"
      "Fichier_remplace \<in> set lg'"
      by (rule optimizeModel_mandatory_written [where rt = rt and st = st and p = p
            and tool = tool and opts = opts and ?b1.0 = b1, OF v wf t]) blast
    then show ?thesis by (simp add: store_after_def)
  qed
  have o: "store_after (optimizeModel rt tool opts p st) (outputPath p) = None"
  proof (cases "tool (Optimize (inputPath p) (outputPath p) (compress (destructure opts))) st")
    case (Written b1)
    with w show ?thesis by blast
  next
    case (Failed x)
    with f show ?thesis by simp
  qed
  from o f w r q show ?thesis by blast
qed

subsection \<open>The sample runs\<close>

lemmas run_defs = optimizeModel_def optimize_try_def resize_stage_def webp_stage_def report_def
  replace_original_def action_defs destructure_def COMPRESS_DRACO_def RESIZE_TEXTURES_def
  MAX_TEXTURE_SIZE_def

lemma first_sample_run:
  "optimizeModel sample_runtime ok_tool no_options sample_glb_path sample_store =
     (True, [''/models/robot.glb'' \<mapsto> sample_glb, ''/models/robot-original.glb'' \<mapsto> sample_glb_bin],
      [Modele_valide,
        Etape 1, Exec (Optimize ''/models/robot.glb'' ''/models/robot-optimized.glb'' True),
        Etape 2, Exec (Resize ''/models/robot-optimized.glb'' ''/models/robot-optimized-temp.glb'' 1024),
        Etape 3, Exec (Webp ''/models/robot-optimized.glb'' ''/models/robot-optimized-temp2.glb''),
        Optimisation_terminee, Applique_Draco, Applique_redimensionnement 1024, Applique_WebP,
        Applique_gltf_transform, Sauvegarde_de_l_original, Remplacement_du_fichier,
        Fichier_remplace])"
  by (simp add: run_defs sample_glb_valid sample_store_def no_options_def stub_tool_def ok_tool_def
      sample_paths sample_ext fun_eq_iff)

lemma second_sample_run:
  "optimizeModel sample_runtime ok_tool no_options sample_glb_path
     [''/models/robot.glb'' \<mapsto> sample_glb, ''/models/robot-original.glb'' \<mapsto> sample_glb_bin] =
     (True, [''/models/robot.glb'' \<mapsto> sample_glb, ''/models/robot-original.glb'' \<mapsto> sample_glb_bin],
      [Modele_valide,
        Etape 1, Exec (Optimize ''/models/robot.glb'' ''/models/robot-optimized.glb'' True),
        Etape 2, Exec (Resize ''/models/robot-optimized.glb'' ''/models/robot-optimized-temp.glb'' 1024),
        Etape 3, Exec (Webp ''/models/robot-optimized.glb'' ''/models/robot-optimized-temp2.glb''),
        Optimisation_terminee, Applique_Draco, Applique_redimensionnement 1024, Applique_WebP,
        Applique_gltf_transform, Remplacement_du_fichier, Fichier_remplace])"
  by (simp add: run_defs sample_glb_valid2 no_options_def stub_tool_def ok_tool_def
      sample_paths sample_ext fun_eq_iff)

lemma stale_store_valid: "validateGltfModel sample_runtime stale_store sample_glb_path = Valid"
  by (rule sample_glb_valid) (simp add: stale_store_def sample_store_def sample_paths)

lemma stale_store_holds:
  "stale_store (inputPath sample_glb_path) = Some sample_glb_bin"
  "stale_store (outputPath sample_glb_path) = Some junk"
  "stale_store (tempPath sample_glb_path) = Some junk"
  "stale_store (tempPath2 sample_glb_path) = Some junk"
  by (simp_all add: stale_store_def sample_store_def sample_paths)

lemma failed_run_on_stale_store:
  "optimizeModel sample_runtime failing_tool no_options sample_glb_path stale_store =
     (True, stale_store(outputPath sample_glb_path := None),
      [Modele_valide, Etape 1,
       Exec (Optimize (inputPath sample_glb_path) (outputPath sample_glb_path)
               (compress (destructure no_options))),
       Erreur_lors_de_l_optimisation])"
proof -
  have t: "failing_tool (Optimize (inputPath sample_glb_path) (outputPath sample_glb_path)
              (compress (destructure no_options))) stale_store = Failed (Some [0, 1])"
    by (simp add: failing_tool_def stub_tool_def)
  show ?thesis
    using optimizeModel_mandatory_failed [where rt = sample_runtime and st = stale_store
        and p = sample_glb_path and tool = failing_tool and opts = no_options
        and x = "Some [0, 1]", OF stale_store_valid t] .
qed

section \<open>The claims\<close>

subsection \<open>The validator\<close>

text \<open>
  Claim C8.  For a path that ends in neither \<^verbatim>\<open>.gltf\<close> nor \<^verbatim>\<open>.glb\<close>, a file that exists
  and is not empty is valid, whatever its content and whatever the runtime would make
  of it: none of the two branches that read the content is entered.
\<close>

theorem other_extensions_are_valid:
  assumes "\<not> endsWith (full_path p) ''.gltf''" and "\<not> endsWith (full_path p) ''.glb''"
    and "st (full_path p) = Some content" and "content \<noteq> []"
  shows "validateGltfModel rt st p = Valid"
  using assms by (simp add: validateGltfModel_def)

theorem other_extensions_are_valid_witness:
  "\<not> endsWith (full_path sample_txt_path) ''.gltf'' \<and> \<not> endsWith (full_path sample_txt_path) ''.glb''
   \<and> [full_path sample_txt_path \<mapsto> [0x68, 0x69]] (full_path sample_txt_path) = Some [0x68, 0x69 :: byte]
   \<and> validateGltfModel sample_runtime [full_path sample_txt_path \<mapsto> [0x68, 0x69]] sample_txt_path = Valid"
proof -
  have a: "\<not> endsWith (full_path sample_txt_path) ''.gltf''"
    and b: "\<not> endsWith (full_path sample_txt_path) ''.glb''"
    by (simp_all add: sample_defs endsWith_def full_path_def path_join_def)
  have c: "[full_path sample_txt_path \<mapsto> [0x68, 0x69]] (full_path sample_txt_path) = Some [0x68, 0x69 :: byte]"
    by simp
  from other_extensions_are_valid [where p = sample_txt_path and rt = sample_runtime
      and st = "[full_path sample_txt_path \<mapsto> [0x68, 0x69]]", OF a b c] a b c
  show ?thesis by simp
qed




text \<open>
  Claim C4, as amended.  At a cursor with 1 to 7 bytes left the scan returns the reason
  \<open>Chunk_GLB_incomplet\<close>.  A chunk whose header declares more bytes than remain after
  it is not rejected for that: the scan ends with this chunk.  When it is tagged
  \<^verbatim>\<open>JSON\<close>, the bytes that remain are parsed and checked, and their verdict is the
  verdict of the scan; otherwise the chunk is skipped, and the scan passes when a JSON
  chunk was seen before and returns \<open>GLB_sans_chunk_JSON\<close> when none was.
\<close>

theorem chunk_scan_truncated_chunk:
  "(offset < length content \<and> length content < offset + 8 \<longrightarrow>
      chunk_scan rt content offset hj hb = Some Chunk_GLB_incomplet)
   \<and> (offset + 8 \<le> length content \<and> readUInt32LE content offset = Some L
        \<and> length content < offset + 8 + L \<longrightarrow>
      chunk_scan rt content offset hj hb =
        (if buffer_slice content (offset + 4) (offset + 8) = ascii ''JSON''
         then glb_json_chunk rt (drop (offset + 8) content)
         else if hj then None else Some GLB_sans_chunk_JSON))"
proof (intro conjI impI)
  assume "offset < length content \<and> length content < offset + 8"
  then show "chunk_scan rt content offset hj hb = Some Chunk_GLB_incomplet"
    by (simp add: chunk_step_def)
next
  assume a: "offset + 8 \<le> length content \<and> readUInt32LE content offset = Some L
        \<and> length content < offset + 8 + L"
  then have "length content - (offset + 8) \<le> L" by linarith
  then have s: "buffer_slice content (offset + 8) (offset + 8 + L) = drop (offset + 8) content"
    by (simp add: buffer_slice_def)
  have e: "chunk_scan rt content (offset + 8 + L) j b = (if j then None else Some GLB_sans_chunk_JSON)"
    for j b
    using a by simp
  show "chunk_scan rt content offset hj hb =
        (if buffer_slice content (offset + 4) (offset + 8) = ascii ''JSON''
         then glb_json_chunk rt (drop (offset + 8) content)
         else if hj then None else Some GLB_sans_chunk_JSON)"
  proof (cases "glb_json_chunk rt (drop (offset + 8) content)")
    case None
    with a s e show ?thesis
      by (subst chunk_scan.simps) (simp add: chunk_step_def del: chunk_scan.simps)
  next
    case (Some r)
    with a s e show ?thesis
      by (subst chunk_scan.simps) (simp add: chunk_step_def del: chunk_scan.simps)
  qed
qed

theorem chunk_scan_truncated_chunk_witness:
  "12 < length truncated_header_glb \<and> length truncated_header_glb < 12 + 8
   \<and> chunk_scan sample_runtime truncated_header_glb 12 False False = Some Chunk_GLB_incomplet
   \<and> 47 + 8 \<le> length truncated_glb \<and> readUInt32LE truncated_glb 47 = Some 16
   \<and> length truncated_glb < 47 + 8 + 16
   \<and> chunk_scan sample_runtime truncated_glb 47 True False = None"
proof -
  have a: "12 < length truncated_header_glb \<and> length truncated_header_glb < 12 + 8"
    by (simp add: sample_defs ascii_def)
  have b: "47 + 8 \<le> length truncated_glb \<and> readUInt32LE truncated_glb 47 = Some 16
        \<and> length truncated_glb < 47 + 8 + 16"
    by (simp add: sample_defs ascii_def readUInt32LE_def)
  have c: "buffer_slice truncated_glb (47 + 4) (47 + 8) \<noteq> ascii ''JSON''"
    by (simp add: sample_defs ascii_def buffer_slice_def)
  from chunk_scan_truncated_chunk [where offset = 12 and content = truncated_header_glb
      and rt = sample_runtime and hj = False and hb = False]
    chunk_scan_truncated_chunk [where offset = 47 and content = truncated_glb and L = 16
      and rt = sample_runtime and hj = True and hb = False] a b c
  show ?thesis by simp
qed

text \<open>
  The claim as stated fails on \<open>truncated_glb\<close>: the header at offset 47 declares 16
  bytes, the file ends with that header, and the file is valid.
\<close>

theorem truncated_payload_is_accepted:
  "readUInt32LE truncated_glb 47 = Some 16 \<and> length truncated_glb = 47 + 8
   \<and> validateGltfModel sample_runtime [full_path sample_glb_path \<mapsto> truncated_glb] sample_glb_path
      = Valid"
  by (simp add: validator_defs sample_defs)

text \<open>
  Claim C9.  In a \<^verbatim>\<open>.gltf\<close> file whose \<^verbatim>\<open>buffers\<close> array has two entries or more, only
  the first is looked at: when the first entry has no URI, or a URI of an existing file,
  the validator never answers that a binary file is missing, whatever the later entries
  refer to, and the file is valid when its \<^verbatim>\<open>asset.version\<close> is \<^verbatim>\<open>"2.0"\<close>.
\<close>

theorem only_first_buffer_is_checked:
  assumes "endsWith (full_path p) ''.gltf''"
    and "st (full_path p) = Some content" and "content \<noteq> []"
    and "JSON_parse rt content = Some gltf"
    and "member (Val gltf) ''buffers'' = Some (Val (JArr (first # second # others)))"
    and "member (Val first) ''uri'' = Some uri"
    and "\<not> truthy uri \<or> (\<exists>u. uri = Val (JStr u) \<and> st (path_join (dirname p) u) \<noteq> None)"
  shows "validateGltfModel rt st p \<noteq> Invalid (Fichier_binaire_manquant missing)
    \<and> (member (Val gltf) ''asset'' = Some asset \<and> member asset ''version'' = Some (Val (JStr ''2.0''))
        \<longrightarrow> validateGltfModel rt st p = Valid)"
proof -
  have g: "\<not> endsWith (full_path p) ''.glb''"
    using glb_not_gltf [of "full_path p"] assms(1) by blast
  have b: "gltf_try rt st p content \<noteq> Some (Some (Fichier_binaire_manquant missing))"
    using assms(4-7)
    by (auto simp: gltf_try_def split: Option.bind_splits if_splits js.splits json.splits)
  have v: "gltf_try rt st p content = Some None"
    if "member (Val gltf) ''asset'' = Some asset" and "member asset ''version'' = Some (Val (JStr ''2.0''))"
    using assms(4-7) that member_version_truthy [of asset "JStr ''2.0''"]
    by (auto simp: gltf_try_def split: Option.bind_splits if_splits js.splits json.splits)
  show ?thesis
  proof (intro conjI impI)
    show "validateGltfModel rt st p \<noteq> Invalid (Fichier_binaire_manquant missing)"
      using assms(1-3) g b
      by (auto simp: validateGltfModel_def validate_gltf_def split: option.splits)
  next
    assume "member (Val gltf) ''asset'' = Some asset \<and> member asset ''version'' = Some (Val (JStr ''2.0''))"
    with v have "gltf_try rt st p content = Some None" by blast
    with assms(1-3) g show "validateGltfModel rt st p = Valid"
      by (simp add: validateGltfModel_def validate_gltf_def)
  qed
qed

theorem only_first_buffer_is_checked_witness:
  "endsWith (full_path sample_gltf_path) ''.gltf''
   \<and> JSON_parse sample_runtime (ascii sample_gltf_text) = Some sample_gltf
   \<and> member (Val sample_gltf) ''buffers''
       = Some (Val (JArr [JObj [(''uri'', JStr ''scene.bin'')], JObj [(''uri'', JStr ''missing.bin'')]]))
   \<and> sample_gltf_store (path_join (dirname sample_gltf_path) ''scene.bin'') \<noteq> None
   \<and> sample_gltf_store (path_join (dirname sample_gltf_path) ''missing.bin'') = None
   \<and> validateGltfModel sample_runtime sample_gltf_store sample_gltf_path = Valid"
proof -
  have 1: "endsWith (full_path sample_gltf_path) ''.gltf''"
    by (simp add: sample_defs endsWith_def full_path_def path_join_def)
  have 2: "sample_gltf_store (full_path sample_gltf_path) = Some (ascii sample_gltf_text)"
    by (simp add: sample_gltf_store_def sample_defs full_path_def path_join_def)
  have 3: "ascii sample_gltf_text \<noteq> []"
    by (simp add: sample_defs ascii_def)
  have 4: "JSON_parse sample_runtime (ascii sample_gltf_text) = Some sample_gltf"
    by (simp add: sample_defs ascii_def)
  have 5: "member (Val sample_gltf) ''buffers''
       = Some (Val (JArr (JObj [(''uri'', JStr ''scene.bin'')] # JObj [(''uri'', JStr ''missing.bin'')] # [])))"
    by (simp add: sample_defs)
  have 6: "member (Val (JObj [(''uri'', JStr ''scene.bin'')])) ''uri'' = Some (Val (JStr ''scene.bin''))"
    by simp
  have 7: "sample_gltf_store (path_join (dirname sample_gltf_path) ''scene.bin'') \<noteq> None"
    by (simp add: sample_gltf_store_def sample_defs full_path_def path_join_def)
  have 8: "sample_gltf_store (path_join (dirname sample_gltf_path) ''missing.bin'') = None"
    by (simp add: sample_gltf_store_def sample_defs full_path_def path_join_def)
  have 9: "member (Val sample_gltf) ''asset'' = Some (Val (JObj [(''version'', JStr ''2.0'')]))
      \<and> member (Val (JObj [(''version'', JStr ''2.0'')])) ''version'' = Some (Val (JStr ''2.0''))"
    by (simp add: sample_defs)
  have "validateGltfModel sample_runtime sample_gltf_store sample_gltf_path = Valid"
    using only_first_buffer_is_checked [where p = sample_gltf_path and st = sample_gltf_store
        and rt = sample_runtime and content = "ascii sample_gltf_text" and gltf = sample_gltf
        and uri = "Val (JStr ''scene.bin'')" and asset = "Val (JObj [(''version'', JStr ''2.0'')])",
        OF 1 2 3 4 5 6] 7 9
    by blast
  with 1 4 5 7 8 show ?thesis by simp
qed

text \<open>
  Claim C10.  The chunk scan terminates.  A turn of the loop that goes on moves the
  cursor by \<open>8 + L\<close>, where \<open>L < 2^32\<close> is the length the chunk header declares, and from
  a cursor \<open>offset\<close> the loop is left within \<open>(length content - offset) div 8 + 1\<close>
  turns: with that budget the bounded loop returns, and returns what \<open>chunk_scan\<close> does.
\<close>

theorem chunk_scan_terminates:
  "(chunk_step rt content offset hj hb = Inr (offset', hj', hb') \<longrightarrow>
      (\<exists>L<2 ^ 32. readUInt32LE content offset = Some L \<and> offset' = offset + 8 + L))
   \<and> ((length content - offset) div 8 < fuel \<longrightarrow>
      chunk_scan_fuel fuel rt content offset hj hb = Some (chunk_scan rt content offset hj hb))"
proof (intro conjI impI)
  assume "chunk_step rt content offset hj hb = Inr (offset', hj', hb')"
  then obtain L where "readUInt32LE content offset = Some L" and "offset' = offset + 8 + L"
    by (auto simp: chunk_step_def split: if_splits option.splits)
  with readUInt32LE_bound [of content offset L]
  show "\<exists>L<2 ^ 32. readUInt32LE content offset = Some L \<and> offset' = offset + 8 + L"
    by simp
next
  assume "(length content - offset) div 8 < fuel"
  then show "chunk_scan_fuel fuel rt content offset hj hb = Some (chunk_scan rt content offset hj hb)"
    by (rule chunk_scan_fuel_enough)
qed

theorem chunk_scan_terminates_witness:
  "chunk_step sample_runtime sample_glb_bin 12 False False = Inr (47, True, False)
   \<and> (\<exists>L<2 ^ 32. readUInt32LE sample_glb_bin 12 = Some L \<and> 47 = 12 + 8 + L)
   \<and> (length sample_glb_bin - 12) div 8 < 6
   \<and> chunk_scan_fuel 6 sample_runtime sample_glb_bin 12 False False
       = Some (chunk_scan sample_runtime sample_glb_bin 12 False False)"
proof -
  have a: "chunk_step sample_runtime sample_glb_bin 12 False False = Inr (47, True, False)"
    by (simp add: validator_defs sample_defs)
  have b: "(length sample_glb_bin - 12) div 8 < 6"
    by (simp add: sample_defs ascii_def)
  from chunk_scan_terminates [of sample_runtime sample_glb_bin 12 False False 47 True False 6] a b
  show ?thesis by simp
qed

subsection \<open>The pipeline\<close>

text \<open>
  Claim C1, as amended.  When the model is valid and the mandatory step fails, whatever
  the tool left at the output path, the run ends in the outer \<^verbatim>\<open>catch\<close>: the store is the
  one before the run without the file at the output path.  So the original is untouched,
  whatever is at the output path is deleted, every file at another path is left as it
  was (a file that was at the temporary path of step 2 or 3 before the run is still
  there, and none is there that was not), no file is on disk that was not there before;
  the console holds the error and the run has not replaced the original.
\<close>

theorem mandatory_failure_aborts:
  assumes "validateGltfModel rt st p = Valid"
    and "tool (Optimize (inputPath p) (outputPath p) (compress (destructure opts))) st = Failed x"
  shows "optimizeModel rt tool opts p st =
      (True, st(outputPath p := None),
       [Modele_valide, Etape 1,
        Exec (Optimize (inputPath p) (outputPath p) (compress (destructure opts))),
        Erreur_lors_de_l_optimisation])
    \<and> store_after (optimizeModel rt tool opts p st) (inputPath p) = st (inputPath p)
    \<and> store_after (optimizeModel rt tool opts p st) (outputPath p) = None
    \<and> (\<forall>q. q \<noteq> outputPath p \<longrightarrow> store_after (optimizeModel rt tool opts p st) q = st q)
    \<and> dom (store_after (optimizeModel rt tool opts p st)) \<subseteq> dom st
    \<and> \<not> committed (optimizeModel rt tool opts p st)"
  using optimizeModel_mandatory_failed [where rt = rt and st = st and p = p and tool = tool
      and opts = opts and x = x, OF assms] base_paths_distinct(1) [of p]
  by (auto simp: store_after_def committed_def console_after_def)

theorem mandatory_failure_aborts_witness:
  "validateGltfModel sample_runtime stale_store sample_glb_path = Valid
   \<and> failing_tool (Optimize (inputPath sample_glb_path) (outputPath sample_glb_path)
        (compress (destructure no_options))) stale_store = Failed (Some [0, 1])
   \<and> store_after (optimizeModel sample_runtime failing_tool no_options sample_glb_path stale_store)
       = stale_store(outputPath sample_glb_path := None)
   \<and> store_after (optimizeModel sample_runtime failing_tool no_options sample_glb_path stale_store)
        (inputPath sample_glb_path) = Some sample_glb_bin
   \<and> store_after (optimizeModel sample_runtime failing_tool no_options sample_glb_path stale_store)
        (outputPath sample_glb_path) = None
   \<and> \<not> committed (optimizeModel sample_runtime failing_tool no_options sample_glb_path stale_store)"
proof -
  let ?R = "optimizeModel sample_runtime failing_tool no_options sample_glb_path stale_store"
  have t: "failing_tool (Optimize (inputPath sample_glb_path) (outputPath sample_glb_path)
              (compress (destructure no_options))) stale_store = Failed (Some [0, 1])"
    by (simp add: failing_tool_def stub_tool_def)
  note th = mandatory_failure_aborts [where rt = sample_runtime and st = stale_store
      and p = sample_glb_path and tool = failing_tool and opts = no_options,
      OF stale_store_valid t]
  from th have 1: "store_after ?R = stale_store(outputPath sample_glb_path := None)"
    by (simp add: store_after_def)
  from th have "store_after ?R (inputPath sample_glb_path) = stale_store (inputPath sample_glb_path)"
    by blast
  then have 2: "store_after ?R (inputPath sample_glb_path) = Some sample_glb_bin"
    by (simp only: stale_store_holds(1))
  from th have 3: "store_after ?R (outputPath sample_glb_path) = None"
    by blast
  from th have 4: "\<not> committed ?R"
    by blast
  from stale_store_valid t 1 2 3 4 show ?thesis by blast
qed

text \<open>
  The claim as stated (no temporary file remains on disk after the run) fails on the
  store with leftovers of an earlier run: the outer \<^verbatim>\<open>catch\<close> unlinks the output path and
  nothing else, and the files at the temporary paths of steps 2 and 3 are still there
  after the aborted run.
\<close>

theorem leftover_temp_files_survive_the_abort:
  "validateGltfModel sample_runtime stale_store sample_glb_path = Valid
   \<and> failing_tool (Optimize (inputPath sample_glb_path) (outputPath sample_glb_path)
        (compress (destructure no_options))) stale_store = Failed (Some [0, 1])
   \<and> store_after (optimizeModel sample_runtime failing_tool no_options sample_glb_path stale_store)
        (tempPath sample_glb_path) = Some junk
   \<and> store_after (optimizeModel sample_runtime failing_tool no_options sample_glb_path stale_store)
        (tempPath2 sample_glb_path) = Some junk
   \<and> \<not> committed (optimizeModel sample_runtime failing_tool no_options sample_glb_path stale_store)"
proof -
  have t: "failing_tool (Optimize (inputPath sample_glb_path) (outputPath sample_glb_path)
              (compress (destructure no_options))) stale_store = Failed (Some [0, 1])"
    by (simp add: failing_tool_def stub_tool_def)
  have 1: "store_after (optimizeModel sample_runtime failing_tool no_options sample_glb_path
      stale_store) (tempPath sample_glb_path) = Some junk"
    using stale_store_holds(3)
    by (simp add: failed_run_on_stale_store store_after_def sample_paths)
  have 2: "store_after (optimizeModel sample_runtime failing_tool no_options sample_glb_path
      stale_store) (tempPath2 sample_glb_path) = Some junk"
    using stale_store_holds(4)
    by (simp add: failed_run_on_stale_store store_after_def sample_paths)
  have 3: "\<not> committed (optimizeModel sample_runtime failing_tool no_options sample_glb_path
      stale_store)"
    by (simp add: failed_run_on_stale_store committed_def console_after_def)
  from stale_store_valid t 1 2 3 show ?thesis by blast
qed

text \<open>
  Claim C2.  When the mandatory step succeeds with output \<open>b1\<close>, the resize step fails
  and the WebP step succeeds with output \<open>b3\<close>: after the resize step the working copy
  still holds \<open>b1\<close> and the resize step's temporary file is gone; the WebP command is
  run; the console holds the warning of the resize step and none for the WebP step; the
  run replaces the original, and the original path then holds \<open>b3\<close>.  This much of the
  claim holds.  Its last part, that the run records the resizing as not applied, does
  not: the console of the run is the list below, where the warning that the resizing
  failed is followed, under the heading of the optimisations applied, by the line
  \<open>Applique_redimensionnement\<close>, which \<open>report\<close> prints whenever the option
  \<^verbatim>\<open>resizeTextures\<close> is set, whether the step succeeded or not.
\<close>

theorem resize_failure_is_isolated:
  assumes v: "validateGltfModel rt st p = Valid" and wf: "well_formed p"
    and rs: "resize (destructure opts)"
    and t1: "tool (Optimize (inputPath p) (outputPath p) (compress (destructure opts))) st = Written b1"
    and t2: "tool (Resize (outputPath p) (tempPath p) (maxSize (destructure opts)))
               (st(outputPath p \<mapsto> b1)) = Failed x"
    and t3: "tool (Webp (outputPath p) (tempPath2 p))
               (st(outputPath p \<mapsto> b1, tempPath p := None)) = Written b3"
  shows "store_after (resize_stage tool (destructure opts) p (st(outputPath p \<mapsto> b1), lg))
           = st(outputPath p \<mapsto> b1, tempPath p := None)
    \<and> (st(outputPath p \<mapsto> b1, tempPath p := None)) (outputPath p) = Some b1
    \<and> Exec (Webp (outputPath p) (tempPath2 p)) \<in> set (console_after (optimizeModel rt tool opts p st))
    \<and> Redimensionnement_a_echoue \<in> set (console_after (optimizeModel rt tool opts p st))
    \<and> Compression_WebP_a_echoue \<notin> set (console_after (optimizeModel rt tool opts p st))
    \<and> committed (optimizeModel rt tool opts p st)
    \<and> store_after (optimizeModel rt tool opts p st) (inputPath p) = Some b3
    \<and> store_after (optimizeModel rt tool opts p st) (tempPath p) = None
    \<and> Applique_redimensionnement (maxSize (destructure opts))
          \<in> set (console_after (optimizeModel rt tool opts p st))
    \<and> console_after (optimizeModel rt tool opts p st) =
        [Modele_valide,
         Etape 1, Exec (Optimize (inputPath p) (outputPath p) (compress (destructure opts))),
         Etape 2, Exec (Resize (outputPath p) (tempPath p) (maxSize (destructure opts))),
         Redimensionnement_a_echoue,
         Etape 3, Exec (Webp (outputPath p) (tempPath2 p)),
         Optimisation_terminee]
        @ (if compress (destructure opts) then [Applique_Draco] else [])
        @ [Applique_redimensionnement (maxSize (destructure opts)), Applique_WebP,
           Applique_gltf_transform]
        @ (if backup (destructure opts) \<and> st (backupPath p) = None
           then [Sauvegarde_de_l_original] else [])
        @ [Remplacement_du_fichier, Fichier_remplace]"
proof -
  note d = base_paths_distinct [of p] temp_paths_distinct [OF wf] temp_neq_temp2 [of p]
  let ?cfg = "destructure opts"
  let ?st1 = "st(outputPath p \<mapsto> b1)"
  let ?st2 = "st(outputPath p \<mapsto> b1, tempPath p := None)"
  let ?st3 = "?st2(tempPath2 p := None, outputPath p \<mapsto> b3)"
  let ?lg1 = "[Modele_valide, Etape 1, Exec (Optimize (inputPath p) (outputPath p) (compress ?cfg))]"
  let ?lg2 = "[Etape 2, Exec (Resize (outputPath p) (tempPath p) (maxSize ?cfg)),
              Redimensionnement_a_echoue]"
  let ?lg3 = "[Etape 3, Exec (Webp (outputPath p) (tempPath2 p))]"
  let ?lg4 = "[Optimisation_terminee] @ (if compress ?cfg then [Applique_Draco] else [])
        @ (if resize ?cfg then [Applique_redimensionnement (maxSize ?cfg)] else [])
        @ [Applique_WebP, Applique_gltf_transform]"
  let ?lg5 = "(if backup ?cfg \<and> ?st3 (backupPath p) = None then [Sauvegarde_de_l_original] else [])
          @ [Remplacement_du_fichier, Fichier_remplace]"
  from valid_exists [OF v] obtain orig where i: "st (inputPath p) = Some orig" by auto
  have r: "resize_stage tool ?cfg p (?st1, l) = (True, ?st2, l @ ?lg2)" for l
    using resize_stage_failed [where tool = tool and cfg = ?cfg and p = p and st = ?st1
        and x = x and lg = l, OF rs t2] .
  have o2: "?st2 (outputPath p) = Some b1" using d by simp
  have w: "webp_stage tool p (?st2, l) = (True, ?st3, l @ ?lg3)" for l
    using webp_stage_written [where tool = tool and p = p and st = ?st2 and b = b3
        and c = b1 and lg = l, OF t3 o2 d(8)] .
  have i3: "?st3 (inputPath p) = Some orig" using i d by simp
  have o3: "?st3 (outputPath p) = Some b3" by simp
  let ?l4 = "?lg1 @ ?lg2 @ ?lg3 @ ?lg4"
  obtain st5 where f:
    "replace_original ?cfg p (?st3, ?l4) = (True, st5, ?l4 @ ?lg5)"
    "st5 (inputPath p) = Some b3"
    "st5 (outputPath p) = None"
    "st5 (backupPath p) = (if backup ?cfg \<and> ?st3 (backupPath p) = None then Some orig else ?st3 (backupPath p))"
    "\<And>q. q \<noteq> inputPath p \<Longrightarrow> q \<noteq> outputPath p \<Longrightarrow> q \<noteq> backupPath p \<Longrightarrow>
       (extname p = ''.gltf'' \<longrightarrow> q \<noteq> binBackupPath p) \<Longrightarrow> st5 q = ?st3 q"
    by (rule replace_original_props [where st = ?st3 and p = p and cfg = ?cfg and lg = ?l4,
          OF i3 o3]) blast
  have run: "optimizeModel rt tool opts p st = (True, st5, ?l4 @ ?lg5)"
    using v t1 r [of ?lg1] w [of "?lg1 @ ?lg2"] report_eq [of ?cfg ?st3 "?lg1 @ ?lg2 @ ?lg3"] f(1)
    by (simp add: optimizeModel_def optimize_try_def block_Cons block_Nil try_catch_def
        console_log_def execSync_def)
  have t5: "st5 (tempPath p) = None"
    using f(5) [of "tempPath p"] d scene_backup_distinct [of p]
    by (cases "extname p = ''.gltf''") auto
  have "store_after (resize_stage tool ?cfg p (?st1, lg)) = ?st2"
    using r [of lg] by (simp add: store_after_def)
  moreover note o2
  moreover have "Exec (Webp (outputPath p) (tempPath2 p)) \<in> set (console_after (optimizeModel rt tool opts p st))"
    unfolding run by (simp add: console_after_def)
  moreover have "Redimensionnement_a_echoue \<in> set (console_after (optimizeModel rt tool opts p st))"
    unfolding run by (simp add: console_after_def)
  moreover have "Compression_WebP_a_echoue \<notin> set (console_after (optimizeModel rt tool opts p st))"
    unfolding run by (simp add: console_after_def)
  moreover have "committed (optimizeModel rt tool opts p st)"
    unfolding run by (simp add: committed_def console_after_def)
  moreover have "store_after (optimizeModel rt tool opts p st) (inputPath p) = Some b3"
    unfolding run using f(2) by (simp add: store_after_def)
  moreover have "store_after (optimizeModel rt tool opts p st) (tempPath p) = None"
    unfolding run using t5 by (simp add: store_after_def)
  moreover have "Applique_redimensionnement (maxSize ?cfg)
          \<in> set (console_after (optimizeModel rt tool opts p st))"
    unfolding run using rs by (simp add: console_after_def)
  moreover have "console_after (optimizeModel rt tool opts p st) =
        [Modele_valide,
         Etape 1, Exec (Optimize (inputPath p) (outputPath p) (compress ?cfg)),
         Etape 2, Exec (Resize (outputPath p) (tempPath p) (maxSize ?cfg)),
         Redimensionnement_a_echoue,
         Etape 3, Exec (Webp (outputPath p) (tempPath2 p)),
         Optimisation_terminee]
        @ (if compress ?cfg then [Applique_Draco] else [])
        @ [Applique_redimensionnement (maxSize ?cfg), Applique_WebP, Applique_gltf_transform]
        @ (if backup ?cfg \<and> st (backupPath p) = None then [Sauvegarde_de_l_original] else [])
        @ [Remplacement_du_fichier, Fichier_remplace]"
    unfolding run using rs d by (simp add: console_after_def)
  ultimately show ?thesis by blast
qed

theorem resize_failure_is_isolated_witness:
  "validateGltfModel sample_runtime sample_store sample_glb_path = Valid
   \<and> well_formed sample_glb_path
   \<and> resize (destructure no_options)
   \<and> Redimensionnement_a_echoue \<in> set (console_after (optimizeModel sample_runtime
         (stub_tool (Written sample_glb_bin) (Failed (Some junk)) (Written sample_glb))
         no_options sample_glb_path sample_store))
   \<and> Compression_WebP_a_echoue \<notin> set (console_after (optimizeModel sample_runtime
         (stub_tool (Written sample_glb_bin) (Failed (Some junk)) (Written sample_glb))
         no_options sample_glb_path sample_store))
   \<and> committed (optimizeModel sample_runtime
         (stub_tool (Written sample_glb_bin) (Failed (Some junk)) (Written sample_glb))
         no_options sample_glb_path sample_store)
   \<and> store_after (optimizeModel sample_runtime
         (stub_tool (Written sample_glb_bin) (Failed (Some junk)) (Written sample_glb))
         no_options sample_glb_path sample_store) (inputPath sample_glb_path) = Some sample_glb
   \<and> store_after (optimizeModel sample_runtime
         (stub_tool (Written sample_glb_bin) (Failed (Some junk)) (Written sample_glb))
         no_options sample_glb_path sample_store) (tempPath sample_glb_path) = None
   \<and> Applique_redimensionnement 1024 \<in> set (console_after (optimizeModel sample_runtime
         (stub_tool (Written sample_glb_bin) (Failed (Some junk)) (Written sample_glb))
         no_options sample_glb_path sample_store))"
proof -
  let ?tool = "stub_tool (Written sample_glb_bin) (Failed (Some junk)) (Written sample_glb)"
  have v: "validateGltfModel sample_runtime sample_store sample_glb_path = Valid"
    by (rule sample_glb_valid) (simp add: sample_store_def)
  have rs: "resize (destructure no_options)"
    by (simp add: destructure_def no_options_def RESIZE_TEXTURES_def)
  have t1: "?tool (Optimize (inputPath sample_glb_path) (outputPath sample_glb_path)
      (compress (destructure no_options))) sample_store = Written sample_glb_bin"
    and t2: "?tool (Resize (outputPath sample_glb_path) (tempPath sample_glb_path)
      (maxSize (destructure no_options)))
      (sample_store(outputPath sample_glb_path \<mapsto> sample_glb_bin)) = Failed (Some junk)"
    and t3: "?tool (Webp (outputPath sample_glb_path) (tempPath2 sample_glb_path))
      (sample_store(outputPath sample_glb_path \<mapsto> sample_glb_bin,
         tempPath sample_glb_path := None)) = Written sample_glb"
    by (simp_all add: stub_tool_def)
  have m: "maxSize (destructure no_options) = 1024"
    by (simp add: destructure_def no_options_def MAX_TEXTURE_SIZE_def)
  from resize_failure_is_isolated [where rt = sample_runtime and st = sample_store
      and p = sample_glb_path and tool = ?tool and opts = no_options and lg = "[]",
      OF v sample_glb_path_well_formed rs t1 t2 t3] v sample_glb_path_well_formed rs m
  show ?thesis by simp
qed

text \<open>
  Claim C3.  A run that replaces the original with \<^verbatim>\<open>backupOriginal\<close> set, on a store
  with no backup yet, leaves at the backup path the bytes the original had before the
  run, not those of the working copy; and whatever a second run does, with whatever tool
  and options, the backup still holds these bytes after it.
\<close>

theorem backup_is_idempotent:
  assumes wf: "well_formed p" and bk: "backup (destructure opts1)"
    and nb: "st0 (backupPath p) = None"
    and c1: "committed (optimizeModel rt1 tool1 opts1 p st0)"
  shows "st0 (inputPath p) \<noteq> None
    \<and> store_after (optimizeModel rt1 tool1 opts1 p st0) (backupPath p) = st0 (inputPath p)
    \<and> store_after (optimizeModel rt2 tool2 opts2 p (store_after (optimizeModel rt1 tool1 opts1 p st0)))
         (backupPath p) = st0 (inputPath p)"
proof -
  from committed_cases [OF c1] obtain b1 where v: "validateGltfModel rt1 st0 p = Valid"
    and w: "tool1 (Optimize (inputPath p) (outputPath p) (compress (destructure opts1))) st0 = Written b1"
    by blast
  from valid_exists [OF v] obtain orig where i: "st0 (inputPath p) = Some orig" by auto
  obtain st' lg' where
      "optimizeModel rt1 tool1 opts1 p st0 =
         (True, st', [Modele_valide, Etape 1,
            Exec (Optimize (inputPath p) (outputPath p) (compress (destructure opts1)))] @ lg')"
      "st' (inputPath p) \<noteq> None"
      "st' (outputPath p) = None"
      "st' (tempPath2 p) = None"
      "resize (destructure opts1) \<Longrightarrow> st' (tempPath p) = None"
      "st' (backupPath p) =
         (if backup (destructure opts1) \<and> st0 (backupPath p) = None then st0 (inputPath p)
          else st0 (backupPath p))"
      "Fichier_remplace \<in> set lg'"
      by (rule optimizeModel_mandatory_written [where rt = rt1 and st = st0 and p = p
            and tool = tool1 and opts = opts1 and ?b1.0 = b1, OF v wf w]) blast
  with bk nb i have 1: "store_after (optimizeModel rt1 tool1 opts1 p st0) (backupPath p) = Some orig"
    by (simp add: store_after_def)
  from backup_preserved [where p = p and c = orig and rt = rt2 and tool = tool2 and opts = opts2
      and st = "store_after (optimizeModel rt1 tool1 opts1 p st0)", OF wf 1]
  have 2: "store_after (optimizeModel rt2 tool2 opts2 p (store_after (optimizeModel rt1 tool1 opts1 p st0)))
         (backupPath p) = Some orig" .
  from i 1 2 show ?thesis by simp
qed

theorem backup_is_idempotent_witness:
  "well_formed sample_glb_path \<and> backup (destructure no_options)
   \<and> sample_store (backupPath sample_glb_path) = None
   \<and> sample_store (inputPath sample_glb_path) = Some sample_glb_bin
   \<and> committed (optimizeModel sample_runtime ok_tool no_options sample_glb_path sample_store)
   \<and> committed (optimizeModel sample_runtime ok_tool no_options sample_glb_path
        (store_after (optimizeModel sample_runtime ok_tool no_options sample_glb_path sample_store)))
   \<and> store_after (optimizeModel sample_runtime ok_tool no_options sample_glb_path sample_store)
        (backupPath sample_glb_path) = Some sample_glb_bin
   \<and> store_after (optimizeModel sample_runtime ok_tool no_options sample_glb_path
        (store_after (optimizeModel sample_runtime ok_tool no_options sample_glb_path sample_store)))
        (backupPath sample_glb_path) = Some sample_glb_bin"
proof -
  let ?R1 = "optimizeModel sample_runtime ok_tool no_options sample_glb_path sample_store"
  have bk: "backup (destructure no_options)"
    by (simp add: destructure_def no_options_def)
  have nb: "sample_store (backupPath sample_glb_path) = None"
    by (simp add: sample_store_def sample_paths)
  have i: "sample_store (inputPath sample_glb_path) = Some sample_glb_bin"
    by (simp add: sample_store_def)
  have c1: "committed ?R1"
    by (simp add: first_sample_run committed_def console_after_def)
  have c2: "committed (optimizeModel sample_runtime ok_tool no_options sample_glb_path (store_after ?R1))"
    by (simp add: first_sample_run store_after_def second_sample_run committed_def console_after_def)
  from backup_is_idempotent [where p = sample_glb_path and ?opts1.0 = no_options
      and ?st0.0 = sample_store and ?rt1.0 = sample_runtime and ?tool1.0 = ok_tool
      and ?rt2.0 = sample_runtime and ?tool2.0 = ok_tool and ?opts2.0 = no_options,
      OF sample_glb_path_well_formed bk nb c1]
    sample_glb_path_well_formed bk nb i c1 c2
  show ?thesis by simp
qed

text \<open>
  Claim C6, as amended.  Nothing is removed before a step runs: each of the three
  commands is run on the store as it is, with whatever file is at its output path.  On a
  valid model the first command is run on the store of the caller: when it fails the run
  ends with that store without the file at the output path, and when it succeeds the run
  is the four later stages run on that store with the new output at the output path.
  The resize step (when resizing is on) and the WebP step, from any store \<open>s\<close>, run
  their command on \<open>s\<close> itself, and what they return is fixed by what the command
  answers there: the file at the temporary path is removed after the command only, by
  the rename on success and by the \<^verbatim>\<open>catch\<close> on failure.  A leftover does not outlive the
  step that writes to its path: after a run on a valid model no file is at the output
  path of the first step, whether that step failed or succeeded; and when the first step
  succeeded, no file is at the temporary path of step 3, nor at that of step 2 when
  resizing is on.  Step by step: from any store, no file is at the temporary path of
  step 2 once it has run, nor at that of step 3 once it has run.
\<close>

theorem stages_run_on_the_store_as_it_is:
  assumes v: "validateGltfModel rt st p = Valid" and wf: "well_formed p"
  shows "(\<forall>x. tool (Optimize (inputPath p) (outputPath p) (compress (destructure opts))) st = Failed x
          \<longrightarrow> optimizeModel rt tool opts p st =
                (True, st(outputPath p := None),
                 [Modele_valide, Etape 1,
                  Exec (Optimize (inputPath p) (outputPath p) (compress (destructure opts))),
                  Erreur_lors_de_l_optimisation]))
    \<and> (\<forall>b1. tool (Optimize (inputPath p) (outputPath p) (compress (destructure opts))) st = Written b1
          \<longrightarrow> optimizeModel rt tool opts p st =
                block [resize_stage tool (destructure opts) p, webp_stage tool p,
                       report (destructure opts), replace_original (destructure opts) p]
                  (st(outputPath p \<mapsto> b1),
                   [Modele_valide, Etape 1,
                    Exec (Optimize (inputPath p) (outputPath p) (compress (destructure opts)))]))
    \<and> (resize cfg \<longrightarrow>
          resize_stage tool cfg p (s, lg) =
            (case tool (Resize (outputPath p) (tempPath p) (maxSize cfg)) s of
               Failed x \<Rightarrow>
                 (True, s(tempPath p := None),
                  lg @ [Etape 2, Exec (Resize (outputPath p) (tempPath p) (maxSize cfg)),
                        Redimensionnement_a_echoue])
             | Written b \<Rightarrow>
                 if s (outputPath p) = None
                 then (True, s(tempPath p := None),
                       lg @ [Etape 2, Exec (Resize (outputPath p) (tempPath p) (maxSize cfg)),
                             Redimensionnement_a_echoue])
                 else (True, s(tempPath p := None, outputPath p \<mapsto> b),
                       lg @ [Etape 2, Exec (Resize (outputPath p) (tempPath p) (maxSize cfg))])))
    \<and> webp_stage tool p (s, lg) =
          (case tool (Webp (outputPath p) (tempPath2 p)) s of
             Failed x \<Rightarrow>
               (True, s(tempPath2 p := None),
                lg @ [Etape 3, Exec (Webp (outputPath p) (tempPath2 p)), Compression_WebP_a_echoue])
           | Written b \<Rightarrow>
               if s (outputPath p) = None
               then (True, s(tempPath2 p := None),
                     lg @ [Etape 3, Exec (Webp (outputPath p) (tempPath2 p)),
                           Compression_WebP_a_echoue])
               else (True, s(tempPath2 p := None, outputPath p \<mapsto> b),
                     lg @ [Etape 3, Exec (Webp (outputPath p) (tempPath2 p))]))
    \<and> store_after (optimizeModel rt tool opts p st) (outputPath p) = None
    \<and> (\<forall>x. tool (Optimize (inputPath p) (outputPath p) (compress (destructure opts))) st = Failed x
          \<longrightarrow> store_after (optimizeModel rt tool opts p st) = st(outputPath p := None))
    \<and> (\<forall>b1. tool (Optimize (inputPath p) (outputPath p) (compress (destructure opts))) st = Written b1
          \<longrightarrow> store_after (optimizeModel rt tool opts p st) (tempPath2 p) = None
              \<and> (resize (destructure opts)
                   \<longrightarrow> store_after (optimizeModel rt tool opts p st) (tempPath p) = None))
    \<and> (resize cfg \<longrightarrow> store_after (resize_stage tool cfg p (s, lg)) (tempPath p) = None)
    \<and> store_after (webp_stage tool p (s, lg)) (tempPath2 p) = None"
proof -
  note d = temp_paths_distinct [OF wf]
  have 1: "optimizeModel rt tool opts p st =
      (True, st(outputPath p := None),
       [Modele_valide, Etape 1,
        Exec (Optimize (inputPath p) (outputPath p) (compress (destructure opts))),
        Erreur_lors_de_l_optimisation])"
    if "tool (Optimize (inputPath p) (outputPath p) (compress (destructure opts))) st = Failed x" for x
    using optimizeModel_mandatory_failed [where rt = rt and st = st and p = p and tool = tool
        and opts = opts and x = x, OF v that] .
  have 2: "optimizeModel rt tool opts p st =
      block [resize_stage tool (destructure opts) p, webp_stage tool p,
             report (destructure opts), replace_original (destructure opts) p]
        (st(outputPath p \<mapsto> b1),
         [Modele_valide, Etape 1,
          Exec (Optimize (inputPath p) (outputPath p) (compress (destructure opts)))])"
    if "tool (Optimize (inputPath p) (outputPath p) (compress (destructure opts))) st = Written b1" for b1
    using optimizeModel_mandatory_written_eq [where rt = rt and st = st and p = p and tool = tool
        and opts = opts and ?b1.0 = b1, OF v wf that] .
  note 3 = resize_stage_eq [where cfg = cfg and p = p and tool = tool and s = s and lg = lg,
      OF _ d(2)]
  note 4 = webp_stage_eq [where p = p and tool = tool and s = s and lg = lg, OF d(5)]
  note 5 = leftovers_gone [where rt = rt and st = st and p = p and tool = tool and opts = opts
      and cfg = cfg and s = s and lg = lg, OF v wf]
  show ?thesis
    apply (intro conjI allI impI)
    subgoal for x by (rule 1)
    subgoal for b1 by (rule 2)
    subgoal by (rule 3)
    subgoal by (rule 4)
    using 5 by blast+
qed

theorem stages_run_on_the_store_as_it_is_witness:
  "validateGltfModel sample_runtime stale_store sample_glb_path = Valid
   \<and> well_formed sample_glb_path
   \<and> stale_store (outputPath sample_glb_path) = Some junk
   \<and> stale_store (tempPath sample_glb_path) = Some junk
   \<and> stale_store (tempPath2 sample_glb_path) = Some junk
   \<and> no_clobber_tool (Resize (outputPath sample_glb_path) (tempPath sample_glb_path) 1024) stale_store
       = Failed None
   \<and> resize_stage no_clobber_tool (destructure no_options) sample_glb_path (stale_store, []) =
       (True, stale_store(tempPath sample_glb_path := None),
        [Etape 2, Exec (Resize (outputPath sample_glb_path) (tempPath sample_glb_path) 1024),
         Redimensionnement_a_echoue])
   \<and> no_clobber_tool (Webp (outputPath sample_glb_path) (tempPath2 sample_glb_path)) stale_store
       = Failed None
   \<and> webp_stage no_clobber_tool sample_glb_path (stale_store, []) =
       (True, stale_store(tempPath2 sample_glb_path := None),
        [Etape 3, Exec (Webp (outputPath sample_glb_path) (tempPath2 sample_glb_path)),
         Compression_WebP_a_echoue])
   \<and> store_after (optimizeModel sample_runtime ok_tool no_options sample_glb_path stale_store)
        (outputPath sample_glb_path) = None
   \<and> store_after (optimizeModel sample_runtime ok_tool no_options sample_glb_path stale_store)
        (tempPath sample_glb_path) = None
   \<and> store_after (optimizeModel sample_runtime ok_tool no_options sample_glb_path stale_store)
        (tempPath2 sample_glb_path) = None"
proof -
  note s = stale_store_holds
  have r: "resize (destructure no_options)"
    and m: "maxSize (destructure no_options) = 1024"
    by (simp_all add: destructure_def no_options_def RESIZE_TEXTURES_def MAX_TEXTURE_SIZE_def)
  have n2: "no_clobber_tool (Resize (outputPath sample_glb_path) (tempPath sample_glb_path) 1024)
      stale_store = Failed None"
    and n3: "no_clobber_tool (Webp (outputPath sample_glb_path) (tempPath2 sample_glb_path))
      stale_store = Failed None"
    using s by (simp_all add: no_clobber_tool_def)
  have t: "ok_tool (Optimize (inputPath sample_glb_path) (outputPath sample_glb_path)
      (compress (destructure no_options))) stale_store = Written sample_glb"
    by (simp add: ok_tool_def stub_tool_def)
  note a = stages_run_on_the_store_as_it_is [where rt = sample_runtime and st = stale_store
      and p = sample_glb_path and tool = no_clobber_tool and opts = no_options
      and cfg = "destructure no_options" and s = stale_store and lg = "[]",
      OF stale_store_valid sample_glb_path_well_formed]
  note b = stages_run_on_the_store_as_it_is [where rt = sample_runtime and st = stale_store
      and p = sample_glb_path and tool = ok_tool and opts = no_options
      and cfg = "destructure no_options" and s = stale_store and lg = "[]",
      OF stale_store_valid sample_glb_path_well_formed]
  from a r m n2 have 1: "resize_stage no_clobber_tool (destructure no_options) sample_glb_path
      (stale_store, []) =
       (True, stale_store(tempPath sample_glb_path := None),
        [Etape 2, Exec (Resize (outputPath sample_glb_path) (tempPath sample_glb_path) 1024),
         Redimensionnement_a_echoue])"
    by simp
  from a n3 have 2: "webp_stage no_clobber_tool sample_glb_path (stale_store, []) =
       (True, stale_store(tempPath2 sample_glb_path := None),
        [Etape 3, Exec (Webp (outputPath sample_glb_path) (tempPath2 sample_glb_path)),
         Compression_WebP_a_echoue])"
    by simp
  from b t r have 3:
    "store_after (optimizeModel sample_runtime ok_tool no_options sample_glb_path stale_store)
        (outputPath sample_glb_path) = None"
    "store_after (optimizeModel sample_runtime ok_tool no_options sample_glb_path stale_store)
        (tempPath sample_glb_path) = None"
    "store_after (optimizeModel sample_runtime ok_tool no_options sample_glb_path stale_store)
        (tempPath2 sample_glb_path) = None"
    by blast+
  from stale_store_valid sample_glb_path_well_formed s(2-4) n2 1 n3 2 3 show ?thesis
    by blast
qed

text \<open>
  The claim as stated (the leftover is removed before the step, so that it cannot collide
  with the new run) fails with a tool that does not overwrite: on the store with a
  leftover at the output path the first step fails and the run aborts, where on the store
  without it the run replaces the original.
\<close>

theorem stale_output_collides:
  "stale_store (outputPath sample_glb_path) = Some junk
   \<and> no_clobber_tool (Optimize (inputPath sample_glb_path) (outputPath sample_glb_path) True) stale_store
       = Failed None
   \<and> console_after (optimizeModel sample_runtime no_clobber_tool no_options sample_glb_path stale_store)
       = [Modele_valide, Etape 1,
          Exec (Optimize (inputPath sample_glb_path) (outputPath sample_glb_path) True),
          Erreur_lors_de_l_optimisation]
   \<and> \<not> committed (optimizeModel sample_runtime no_clobber_tool no_options sample_glb_path stale_store)
   \<and> committed (optimizeModel sample_runtime no_clobber_tool no_options sample_glb_path sample_store)"
proof -
  have v: "validateGltfModel sample_runtime stale_store sample_glb_path = Valid"
    by (rule sample_glb_valid) (simp add: stale_store_def sample_store_def sample_paths)
  have s: "stale_store (outputPath sample_glb_path) = Some junk"
    by (simp add: stale_store_def sample_paths)
  have n: "no_clobber_tool (Optimize (inputPath sample_glb_path) (outputPath sample_glb_path) True)
      stale_store = Failed None"
    using s by (simp add: no_clobber_tool_def)
  have c: "compress (destructure no_options) = True"
    by (simp add: destructure_def no_options_def COMPRESS_DRACO_def)
  have e: "optimizeModel sample_runtime no_clobber_tool no_options sample_glb_path stale_store =
    (True, stale_store(outputPath sample_glb_path := None),
     [Modele_valide, Etape 1,
      Exec (Optimize (inputPath sample_glb_path) (outputPath sample_glb_path) True),
      Erreur_lors_de_l_optimisation])"
    using optimizeModel_mandatory_failed [where rt = sample_runtime and st = stale_store
        and p = sample_glb_path and tool = no_clobber_tool and opts = no_options and x = None, OF v]
      n c by simp
  have k: "committed (optimizeModel sample_runtime no_clobber_tool no_options sample_glb_path sample_store)"
    by (simp add: run_defs sample_glb_valid sample_store_def no_options_def no_clobber_tool_def
      sample_paths sample_ext committed_def console_after_def)
  from s n e k show ?thesis
    by (simp add: console_after_def committed_def)
qed

text \<open>
  Claim C7, as amended.  A field the caller supplies is used as it is; a field the caller
  leaves out takes the value of the module constant (\<open>True\<close> for \<^verbatim>\<open>backupOriginal\<close>):
  a run with fields left out is the run with these values supplied.
\<close>

theorem options_default_to_module_constants:
  "optimizeModel rt tool opts p st =
     optimizeModel rt tool
       \<lparr> compressDraco = Some (case compressDraco opts of None \<Rightarrow> COMPRESS_DRACO | Some v \<Rightarrow> v),
         resizeTextures = Some (case resizeTextures opts of None \<Rightarrow> RESIZE_TEXTURES | Some v \<Rightarrow> v),
         maxTextureSize = Some (case maxTextureSize opts of None \<Rightarrow> MAX_TEXTURE_SIZE | Some v \<Rightarrow> v),
         backupOriginal = Some (case backupOriginal opts of None \<Rightarrow> True | Some v \<Rightarrow> v) \<rparr>
       p st
   \<and> destructure \<lparr> compressDraco = Some c, resizeTextures = Some r, maxTextureSize = Some n,
         backupOriginal = Some b \<rparr>
       = \<lparr> compress = c, resize = r, maxSize = n, backup = b \<rparr>"
  by (simp add: optimizeModel_def destructure_def cong: validation.case_cong)

text \<open>
  The claim as stated (no default is applied) fails on the options with every field left
  out: the run compresses with Draco, resizes to 1024 and writes a backup.
\<close>

theorem omitted_options_take_defaults:
  "destructure no_options = \<lparr> compress = True, resize = True, maxSize = 1024, backup = True \<rparr>
   \<and> console_after (optimizeModel sample_runtime
         (stub_tool (Written sample_glb) (Written sample_glb) (Written sample_glb))
         no_options sample_glb_path sample_store) =
       [Modele_valide,
        Etape 1, Exec (Optimize ''/models/robot.glb'' ''/models/robot-optimized.glb'' True),
        Etape 2, Exec (Resize ''/models/robot-optimized.glb'' ''/models/robot-optimized-temp.glb'' 1024),
        Etape 3, Exec (Webp ''/models/robot-optimized.glb'' ''/models/robot-optimized-temp2.glb''),
        Optimisation_terminee, Applique_Draco, Applique_redimensionnement 1024, Applique_WebP,
        Applique_gltf_transform, Sauvegarde_de_l_original, Remplacement_du_fichier,
        Fichier_remplace]
   \<and> store_after (optimizeModel sample_runtime
         (stub_tool (Written sample_glb) (Written sample_glb) (Written sample_glb))
         no_options sample_glb_path sample_store) ''/models/robot-original.glb'' = Some sample_glb_bin"
  by (simp add: run_defs sample_glb_valid sample_store_def no_options_def stub_tool_def
      sample_paths console_after_def store_after_def)

end
